theory Spec2Isabelle
  imports Main "HOL-Library.Word"
begin

section \<open>Python values: text, bytes, exceptions\<close>

text \<open>
  A Python \<open>str\<close> is a sequence of code points, a \<open>bytes\<close> object a sequence of
  8-bit values. Literals of the source are written with \<open>lit\<close>.
\<close>

type_synonym byte = "8 word"
type_synonym bytes = "byte list"
type_synonym str = "nat list"

definition lit :: "string \<Rightarrow> str" where
  "lit s = map of_char s"

text \<open>
  The exception classes the two modules name or can meet. \<open>docker.errors\<close> derives
  \<open>APIError\<close> and \<open>BuildError\<close> from \<open>DockerException\<close>, \<open>NotFound\<close> from
  \<open>APIError\<close> and \<open>ImageNotFound\<close> from \<open>NotFound\<close>; everything else derives from
  \<open>Exception\<close> only. \<open>OtherError\<close> stands for any further subclass of \<open>Exception\<close>
  (for instance the transport errors of the HTTP layer), named by its class name.
  Signals outside \<open>Exception\<close> (keyboard interrupt, interpreter exit) are not modelled,
  so \<open>except Exception\<close> is a handler for every value of \<open>exn\<close>.
\<close>

datatype exn_class =
    ImageNotFound | NotFound | APIError | BuildError | DockerException
  | UnicodeDecodeError | UnicodeEncodeError | AttributeError | TypeError
  | OtherError str

datatype exn = Exn (cls: exn_class) (msg: str)

text \<open>\<open>isinstance(e, docker.errors.NotFound)\<close> and friends; \<open>str(e)\<close> is \<open>msg e\<close>.\<close>

definition is_ImageNotFound :: "exn \<Rightarrow> bool" where
  "is_ImageNotFound e \<longleftrightarrow> cls e = ImageNotFound"

definition is_NotFound :: "exn \<Rightarrow> bool" where
  "is_NotFound e \<longleftrightarrow> cls e = NotFound \<or> cls e = ImageNotFound"

definition is_DockerException :: "exn \<Rightarrow> bool" where
  "is_DockerException e \<longleftrightarrow>
     cls e = DockerException \<or> cls e = APIError \<or> cls e = BuildError \<or>
     cls e = NotFound \<or> cls e = ImageNotFound"

subsection \<open>The UTF-8 codec\<close>

text \<open>
  \<open>str.encode("utf-8")\<close> and \<open>bytes.decode("utf-8")\<close> with the default strict error
  handler: a lone surrogate (or a value that is no code point) cannot be encoded; an
  overlong form, an encoded surrogate, a value above \<open>0x10FFFF\<close>, a stray continuation
  byte or a truncated sequence cannot be decoded. \<open>None\<close> is the codec's error.
\<close>

definition encode_cp :: "nat \<Rightarrow> bytes option" where
  "encode_cp cp =
     (if cp < 0x80 then Some [of_nat cp]
      else if cp < 0x800 then
        Some [of_nat (0xC0 + cp div 64), of_nat (0x80 + cp mod 64)]
      else if cp < 0x10000 then
        (if 0xD800 \<le> cp \<and> cp < 0xE000 then None
         else Some [of_nat (0xE0 + cp div 4096), of_nat (0x80 + cp div 64 mod 64),
                    of_nat (0x80 + cp mod 64)])
      else if cp < 0x110000 then
        Some [of_nat (0xF0 + cp div 262144), of_nat (0x80 + cp div 4096 mod 64),
              of_nat (0x80 + cp div 64 mod 64), of_nat (0x80 + cp mod 64)]
      else None)"

fun encode_utf8 :: "str \<Rightarrow> bytes option" where
  "encode_utf8 [] = Some []"
| "encode_utf8 (cp # cps) =
     (case encode_cp cp of
        None \<Rightarrow> None
      | Some bs \<Rightarrow> map_option ((@) bs) (encode_utf8 cps))"

definition is_cont :: "byte \<Rightarrow> bool" where
  "is_cont b \<longleftrightarrow> 0x80 \<le> unat b \<and> unat b < 0xC0"

definition cont_bits :: "byte \<Rightarrow> nat" where
  "cont_bits b = unat b - 0x80"

fun decode_utf8 :: "bytes \<Rightarrow> str option" where
  "decode_utf8 [] = Some []"
| "decode_utf8 (b # bs) =
     (let n = unat b in
      if n < 0x80 then map_option ((#) n) (decode_utf8 bs)
      else if n < 0xC0 then None
      else if n < 0xE0 then
        (case bs of
           c1 # r \<Rightarrow>
             (let cp = (n - 0xC0) * 64 + cont_bits c1 in
              if is_cont c1 \<and> 0x80 \<le> cp
              then map_option ((#) cp) (decode_utf8 r) else None)
         | _ \<Rightarrow> None)
      else if n < 0xF0 then
        (case bs of
           c1 # c2 # r \<Rightarrow>
             (let cp = ((n - 0xE0) * 64 + cont_bits c1) * 64 + cont_bits c2 in
              if is_cont c1 \<and> is_cont c2 \<and> 0x800 \<le> cp \<and> \<not> (0xD800 \<le> cp \<and> cp < 0xE000)
              then map_option ((#) cp) (decode_utf8 r) else None)
         | _ \<Rightarrow> None)
      else if n < 0xF8 then
        (case bs of
           c1 # c2 # c3 # r \<Rightarrow>
             (let cp = (((n - 0xF0) * 64 + cont_bits c1) * 64 + cont_bits c2) * 64
                       + cont_bits c3 in
              if is_cont c1 \<and> is_cont c2 \<and> is_cont c3 \<and> 0x10000 \<le> cp \<and> cp < 0x110000
              then map_option ((#) cp) (decode_utf8 r) else None)
         | _ \<Rightarrow> None)
      else None)"


text \<open>
  The codec errors as exceptions. The text of the message is shortened: the position and
  the reason that the interpreter adds are left out.
\<close>

definition bytes_decode :: "bytes \<Rightarrow> exn + str" where
  "bytes_decode bs =
     (case decode_utf8 bs of
        Some s \<Rightarrow> Inr s
      | None \<Rightarrow> Inl (Exn UnicodeDecodeError (lit ''utf-8 codec cannot decode bytes'')))"

definition str_encode :: "str \<Rightarrow> exn + bytes" where
  "str_encode s =
     (case encode_utf8 s of
        Some bs \<Rightarrow> Inr bs
      | None \<Rightarrow> Inl (Exn UnicodeEncodeError (lit ''utf-8 codec cannot encode characters'')))"

text \<open>\<open>str.strip()\<close>: removes the characters for which \<open>str.isspace\<close> holds at both ends.\<close>

definition is_space :: "nat \<Rightarrow> bool" where
  "is_space c \<longleftrightarrow>
     (9 \<le> c \<and> c \<le> 13) \<or> (28 \<le> c \<and> c \<le> 32) \<or> c = 133 \<or> c = 160 \<or> c = 5760 \<or>
     (8192 \<le> c \<and> c \<le> 8202) \<or> c = 8232 \<or> c = 8233 \<or> c = 8239 \<or> c = 8287 \<or> c = 12288"

definition strip :: "str \<Rightarrow> str" where
  "strip s = rev (dropWhile is_space (rev (dropWhile is_space s)))"

text \<open>\<open>s.split(sep)\<close> for a separator of one character: never an empty list.\<close>

fun split :: "nat \<Rightarrow> str \<Rightarrow> str list" where
  "split sep [] = [[]]"
| "split sep (c # cs) =
     (if c = sep then [] # split sep cs
      else (case split sep cs of
              x # xs \<Rightarrow> (c # x) # xs
            | [] \<Rightarrow> [[c]]))"

section \<open>The container runtime as seen through the Docker client\<close>

text \<open>
  The Docker SDK and the engine behind it are not part of the repository. The runtime is
  a state: the image tags it holds and its containers, newest first. Every call of the
  client is recorded in \<open>calls\<close>, in order, with its arguments. A call then either
  fails with the next entry of \<open>faults\<close> (a script of what the environment does at each
  successive call: \<open>Some e\<close> raises \<open>e\<close>, \<open>None\<close> or an exhausted script lets the call
  through), or takes its nominal effect. Nominally a lookup of something absent raises
  the not-found error of its kind, creating a container from an absent image raises
  \<open>ImageNotFound\<close>, and everything else succeeds; the runtime of this model never
  refuses a creation because the name is taken, so whatever uniqueness of names holds is
  owed to the caller. Any other failure (a conflict, a server error, a daemon that does
  not answer) is an entry of the script. \<open>stdout\<close> collects what \<open>print\<close> writes.
\<close>

record container =
  cid :: nat
  cname :: str
  cimage :: str
  cstatus :: str
  cvolumes :: "(str \<times> str \<times> str) list"
  ctty :: bool
  cstdin_open :: bool
  ccommand :: str

text \<open>The keyword arguments of \<open>client.containers.create\<close>; a volume is host path, bind, mode.\<close>

record create_args =
  image :: str
  name :: str
  volumes :: "(str \<times> str \<times> str) list"
  tty :: bool
  stdin_open :: bool
  command :: str

text \<open>A tar archive: its members as name, size and data.\<close>

type_synonym tar = "(str \<times> nat \<times> bytes) list"

datatype call =
    FromEnv
  | Ping
  | ImagesGet str
  | ImagesBuild (fileobj: tar) (custom_context: bool) (rm: bool) (tag: str)
  | ContainersGet str
  | ContainerReload nat
  | ContainerStop nat
  | ContainerRemove nat
  | ContainersCreate create_args
  | ContainerStart nat
  | ContainerExecRun nat str bool bool

record world =
  images :: "str list"
  containers :: "container list"
  next_cid :: nat
  exec_output :: "str \<Rightarrow> bytes"
  build_logs :: "(str \<times> str) list list"
  faults :: "exn option list"
  calls :: "call list"
  stdout :: "str list"

subsection \<open>Programs: state passing with exceptions\<close>

type_synonym 'a prog = "world \<Rightarrow> (exn + 'a) \<times> world"

definition ret :: "'a \<Rightarrow> 'a prog" where
  "ret x w = (Inr x, w)"

definition raise :: "exn \<Rightarrow> 'a prog" where
  "raise e w = (Inl e, w)"

definition seq :: "'a prog \<Rightarrow> ('a \<Rightarrow> 'b prog) \<Rightarrow> 'b prog" where
  "seq m f w = (case m w of (Inl e, w') \<Rightarrow> (Inl e, w') | (Inr x, w') \<Rightarrow> f x w')"

definition try_except :: "'a prog \<Rightarrow> (exn \<Rightarrow> 'a prog) \<Rightarrow> 'a prog" where
  "try_except m h w = (case m w of (Inl e, w') \<Rightarrow> h e w' | (Inr x, w') \<Rightarrow> (Inr x, w'))"

definition lift :: "exn + 'a \<Rightarrow> 'a prog" where
  "lift r w = (r, w)"

definition py_print :: "str \<Rightarrow> unit prog" where
  "py_print s w = (Inr (), w\<lparr>stdout := stdout w @ [s]\<rparr>)"

subsection \<open>The calls of the client\<close>

definition next_fault :: "world \<Rightarrow> exn option" where
  "next_fault w = (case faults w of [] \<Rightarrow> None | f # fs \<Rightarrow> f)"

definition advance :: "call \<Rightarrow> world \<Rightarrow> world" where
  "advance c w = w\<lparr>calls := calls w @ [c], faults := tl (faults w)\<rparr>"

definition api :: "call \<Rightarrow> 'a prog \<Rightarrow> 'a prog" where
  "api c nominal w =
     (case next_fault w of
        Some e \<Rightarrow> (Inl e, advance c w)
      | None \<Rightarrow> nominal (advance c w))"

text \<open>A \<open>Container\<close> object of the SDK: the identifier and the status it last read.\<close>

record handle =
  hid :: nat
  hstatus :: str

definition by_id :: "nat \<Rightarrow> world \<Rightarrow> container option" where
  "by_id i w = find (\<lambda>c. cid c = i) (containers w)"

definition by_name :: "str \<Rightarrow> world \<Rightarrow> container option" where
  "by_name n w = find (\<lambda>c. cname c = n) (containers w)"

definition no_such_container :: exn where
  "no_such_container = Exn NotFound (lit ''No such container'')"

definition no_such_image :: exn where
  "no_such_image = Exn ImageNotFound (lit ''No such image'')"

definition set_status :: "nat \<Rightarrow> str \<Rightarrow> world \<Rightarrow> world" where
  "set_status i s w =
     w\<lparr>containers := map (\<lambda>c. if cid c = i then c\<lparr>cstatus := s\<rparr> else c) (containers w)\<rparr>"

definition from_env :: "unit prog" where
  "from_env = api FromEnv (ret ())"

definition client_ping :: "bool prog" where
  "client_ping = api Ping (ret True)"

definition images_get :: "str \<Rightarrow> unit prog" where
  "images_get n =
     api (ImagesGet n) (\<lambda>w. if n \<in> set (images w) then (Inr (), w) else (Inl no_such_image, w))"

definition images_build :: "tar \<Rightarrow> bool \<Rightarrow> bool \<Rightarrow> str \<Rightarrow> (str \<times> str) list list prog" where
  "images_build ctx cc r t =
     api (ImagesBuild ctx cc r t) (\<lambda>w. (Inr (build_logs w), w\<lparr>images := List.insert t (images w)\<rparr>))"

definition containers_get :: "str \<Rightarrow> handle prog" where
  "containers_get n =
     api (ContainersGet n) (\<lambda>w. case by_name n w of
        None \<Rightarrow> (Inl no_such_container, w)
      | Some c \<Rightarrow> (Inr \<lparr>hid = cid c, hstatus = cstatus c\<rparr>, w))"

definition container_reload :: "handle \<Rightarrow> handle prog" where
  "container_reload h =
     api (ContainerReload (hid h)) (\<lambda>w. case by_id (hid h) w of
        None \<Rightarrow> (Inl no_such_container, w)
      | Some c \<Rightarrow> (Inr (h\<lparr>hstatus := cstatus c\<rparr>), w))"

definition container_stop :: "handle \<Rightarrow> unit prog" where
  "container_stop h =
     api (ContainerStop (hid h)) (\<lambda>w. case by_id (hid h) w of
        None \<Rightarrow> (Inl no_such_container, w)
      | Some c \<Rightarrow> (Inr (), set_status (hid h) (lit ''exited'') w))"

definition container_remove :: "handle \<Rightarrow> unit prog" where
  "container_remove h =
     api (ContainerRemove (hid h)) (\<lambda>w. case by_id (hid h) w of
        None \<Rightarrow> (Inl no_such_container, w)
      | Some c \<Rightarrow> (Inr (), w\<lparr>containers := filter (\<lambda>c. cid c \<noteq> hid h) (containers w)\<rparr>))"

definition new_container :: "nat \<Rightarrow> create_args \<Rightarrow> container" where
  "new_container i a =
     \<lparr>cid = i, cname = name a, cimage = image a, cstatus = lit ''created'',
      cvolumes = volumes a, ctty = tty a, cstdin_open = stdin_open a, ccommand = command a\<rparr>"

definition containers_create :: "create_args \<Rightarrow> handle prog" where
  "containers_create a =
     api (ContainersCreate a) (\<lambda>w.
        if image a \<in> set (images w)
        then (Inr \<lparr>hid = next_cid w, hstatus = lit ''created''\<rparr>,
              w\<lparr>containers := new_container (next_cid w) a # containers w,
                next_cid := Suc (next_cid w)\<rparr>)
        else (Inl no_such_image, w))"

definition container_start :: "handle \<Rightarrow> unit prog" where
  "container_start h =
     api (ContainerStart (hid h)) (\<lambda>w. case by_id (hid h) w of
        None \<Rightarrow> (Inl no_such_container, w)
      | Some c \<Rightarrow> (Inr (), set_status (hid h) (lit ''running'') w))"

definition container_exec_run :: "handle \<Rightarrow> str \<Rightarrow> bool \<Rightarrow> bool \<Rightarrow> bytes prog" where
  "container_exec_run h cmd out err =
     api (ContainerExecRun (hid h) cmd out err) (\<lambda>w. case by_id (hid h) w of
        None \<Rightarrow> (Inl no_such_container, w)
      | Some c \<Rightarrow> (Inr (exec_output w cmd), w))"

section \<open>The class \<open>Docker\<close> (core/docker/__init__.py)\<close>

text \<open>
  The plugin supplies the three options and, through the application's configuration,
  the user's data directory. The object itself has the fields of \<open>__init__\<close>; \<open>client\<close>
  is \<open>None\<close> there and no method of the class assigns it.
\<close>

record plugin =
  ipython_dockerfile :: str
  ipython_image_name :: str
  ipython_container_name :: str
  user_data_dir :: str

record docker =
  plugin :: plugin
  client :: "unit option"
  attr_container_name :: str
  attr_image_name :: str
  initialized :: bool

definition init_docker :: "plugin \<Rightarrow> docker" where
  "init_docker p =
     \<lparr>plugin = p, client = None, attr_container_name = lit ''pygpt_container'',
      attr_image_name = lit ''pygpt_image'', initialized = False\<rparr>"

definition get_dockerfile :: "docker \<Rightarrow> str" where
  "get_dockerfile self = ipython_dockerfile (plugin self)"

definition get_image_name :: "docker \<Rightarrow> str" where
  "get_image_name self = ipython_image_name (plugin self)"

definition get_container_name :: "docker \<Rightarrow> str" where
  "get_container_name self = ipython_container_name (plugin self)"

definition get_local_data_dir :: "docker \<Rightarrow> str" where
  "get_local_data_dir self = user_data_dir (plugin self)"

definition log :: "str \<Rightarrow> unit prog" where
  "log m = py_print m"

definition create_docker_context :: "str \<Rightarrow> exn + tar" where
  "create_docker_context dockerfile =
     (case str_encode dockerfile of
        Inl e \<Rightarrow> Inl e
      | Inr dockerfile_data \<Rightarrow> Inr [(lit ''Dockerfile'', length dockerfile_data, dockerfile_data)])"

definition get_docker_client :: "unit prog" where
  "get_docker_client = from_env"

definition is_image :: "docker \<Rightarrow> bool prog" where
  "is_image self =
     seq get_docker_client (\<lambda>client.
       try_except
         (seq (images_get (get_image_name self)) (\<lambda>_. ret True))
         (\<lambda>e. if is_ImageNotFound e then seq (py_print (msg e)) (\<lambda>_. ret False)
              else raise e))"

fun log_stream :: "(str \<times> str) list list \<Rightarrow> unit prog" where
  "log_stream [] = ret ()"
| "log_stream (chunk # logs) =
     (case map_of chunk (lit ''stream'') of
        Some s \<Rightarrow> seq (log (strip s)) (\<lambda>_. log_stream logs)
      | None \<Rightarrow> log_stream logs)"

definition build_image :: "docker \<Rightarrow> unit prog" where
  "build_image self =
     seq get_docker_client (\<lambda>client.
     seq (lift (create_docker_context (get_dockerfile self))) (\<lambda>context.
     seq (log (lit ''Please wait... Building the Docker image...'')) (\<lambda>_.
     seq (images_build context True True (get_image_name self)) (\<lambda>logs.
     log_stream logs))))"

definition stop_container :: "docker \<Rightarrow> str \<Rightarrow> unit prog" where
  "stop_container self n =
     seq get_docker_client (\<lambda>client.
       try_except
         (seq (containers_get n) (\<lambda>container.
          seq (container_stop container) (\<lambda>_.
          container_remove container)))
         (\<lambda>e. if is_NotFound e
              then log (lit ''Container '' @ [39] @ n @ [39] @ lit '' not found.'')
              else raise e))"

definition end_all :: "docker \<Rightarrow> bool \<Rightarrow> unit prog" where
  "end_all self all = (if all then stop_container self (get_container_name self) else ret ())"

definition container_args :: "str \<Rightarrow> str \<Rightarrow> str \<Rightarrow> create_args" where
  "container_args image_name n local_data_dir =
     \<lparr>image = image_name, name = n,
      volumes = [(local_data_dir, lit ''/data'', lit ''rw'')],
      tty = True, stdin_open = True, command = lit ''tail -f /dev/null''\<rparr>"

definition create_container :: "docker \<Rightarrow> str \<Rightarrow> unit prog" where
  "create_container self n =
     seq get_docker_client (\<lambda>client.
       let local_data_dir = get_local_data_dir self;
           image_name = get_image_name self
       in try_except
         (seq (containers_get n) (\<lambda>container.
          seq (container_reload container) (\<lambda>container.
            if hstatus container = lit ''running'' then ret ()
            else
              seq (py_print (lit ''Container '' @ [39] @ n @ [39]
                             @ lit '' is not running. Starting it.'')) (\<lambda>_.
              seq (container_remove container) (\<lambda>_.
              seq (containers_create (container_args image_name n local_data_dir)) (\<lambda>container.
              container_start container))))))
         (\<lambda>e. if is_NotFound e then
                seq (py_print (lit ''Container '' @ [39] @ n @ [39]
                               @ lit '' not found. Creating a new one.'')) (\<lambda>_.
                seq (containers_create (container_args image_name n local_data_dir)) (\<lambda>container.
                container_start container))
              else log (lit ''Error creating container: '' @ msg e)))"

text \<open>
  \<open>execute\<close> in its parts: the image check of lines 193 to 195, the calls of the
  \<open>try\<close> block up to \<open>exec_run\<close> (lines 199 to 205), the whole \<open>try\<close> block (lines
  199 to 207), and the method with its handler.
\<close>

definition image_check :: "docker \<Rightarrow> unit prog" where
  "image_check self =
     seq (is_image self) (\<lambda>present. if \<not> present then build_image self else ret ())"

definition run_in_container :: "docker \<Rightarrow> str \<Rightarrow> str \<Rightarrow> bytes prog" where
  "run_in_container self n cmd =
     seq (create_container self n) (\<lambda>_.
     seq (containers_get n) (\<lambda>container.
     container_exec_run container cmd True True))"

definition try_block :: "docker \<Rightarrow> str \<Rightarrow> str \<Rightarrow> bytes prog" where
  "try_block self n cmd =
     seq (run_in_container self n cmd) (\<lambda>output.
     seq (lift (bytes_decode output)) (\<lambda>tmp.
     lift (str_encode tmp)))"

definition execute :: "docker \<Rightarrow> str \<Rightarrow> bytes prog" where
  "execute self cmd =
     seq get_docker_client (\<lambda>client.
       let n = get_container_name self
       in seq (image_check self) (\<lambda>_.
          try_except
            (try_block self n cmd)
            (\<lambda>e. seq (log (lit ''Error running container: '' @ msg e)) (\<lambda>_.
                 lift (str_encode (msg e))))))"

definition is_docker_installed :: "docker \<Rightarrow> bool prog" where
  "is_docker_installed self =
     try_except
       (seq (if client self = None
             then seq from_env (\<lambda>client. seq client_ping (\<lambda>_. ret ()))
             else ret ()) (\<lambda>_.
        ret True))
       (\<lambda>e. if is_DockerException e then ret False else raise e)"

section \<open>The selector of remote tools (provider/gpt/agents/remote_tools.py)\<close>

text \<open>
  Values of the configuration store are Python values of any type; a condition tests
  their truth value.
\<close>

datatype pyval = PyNone | PyBool bool | PyInt int | PyStr str | PyList "pyval list"

fun truthy :: "pyval \<Rightarrow> bool" where
  "truthy PyNone = False"
| "truthy (PyBool b) = b"
| "truthy (PyInt i) = (i \<noteq> 0)"
| "truthy (PyStr s) = (s \<noteq> [])"
| "truthy (PyList xs) = (xs \<noteq> [])"

datatype json =
  JNull | JBool bool | JNum int | JStr str | JArr "json list" | JObj "(str \<times> json) list"

text \<open>
  The collaborators the function reads: \<open>window.core.config.get(key, default)\<close>, the
  model's \<open>id\<close> and \<open>is_gpt()\<close>, the preset's \<open>remote_tools\<close>, and the six lists of
  model identifiers of \<open>pygpt_net.core.types\<close>. Their code is outside the function, so
  they are parameters, as is \<open>json.loads\<close>.
\<close>

record window =
  config_get :: "str \<Rightarrow> pyval \<Rightarrow> pyval"

record model_item =
  model_id :: str
  is_gpt :: bool

record preset_item =
  remote_tools :: "str option"

record disable_lists =
  disable_code_interpreter :: "str list"
  disable_computer_use :: "str list"
  disable_image :: "str list"
  disable_web_search :: "str list"
  disable_file_search :: "str list"
  disable_mcp :: "str list"

datatype local_computer = LocalComputer window

datatype tool =
    WebSearchTool
  | CodeInterpreterTool json
  | ImageGenerationTool json
  | FileSearchTool (max_num_results: nat) (vector_store_ids: pyval) (include_search_results: bool)
  | ComputerTool local_computer "pyval \<Rightarrow> bool"
  | HostedMCPTool json

definition startswith :: "str \<Rightarrow> str \<Rightarrow> bool" where
  "startswith s p \<longleftrightarrow> take (length p) s = p"

text \<open>The comprehension \<open>[x.strip() for x in s.split(",") if x.strip()]\<close>.\<close>

definition stripped_items :: "str \<Rightarrow> str list" where
  "stripped_items s = filter (\<lambda>x. x \<noteq> []) (map strip (split 44 s))"

definition on_safety_check :: "pyval \<Rightarrow> bool" where
  "on_safety_check data = True"

text \<open>
  The dictionary \<open>enabled\<close> after lines 82 to 107. Its six keys are fixed, so a lookup
  never misses; \<open>item\<close> reads a key.
\<close>

definition enabled_default :: "str \<rightharpoonup> pyval" where
  "enabled_default =
     [lit ''web_search'' \<mapsto> PyBool False, lit ''image'' \<mapsto> PyBool False,
      lit ''code_interpreter'' \<mapsto> PyBool False, lit ''mcp'' \<mapsto> PyBool False,
      lit ''file_search'' \<mapsto> PyBool False, lit ''computer_use'' \<mapsto> PyBool False]"

definition item :: "(str \<rightharpoonup> pyval) \<Rightarrow> str \<Rightarrow> pyval" where
  "item d k = (case d k of Some v \<Rightarrow> v | None \<Rightarrow> PyNone)"

definition enabled_flags ::
  "window \<Rightarrow> model_item \<Rightarrow> preset_item option \<Rightarrow> bool \<Rightarrow> (str \<rightharpoonup> pyval)" where
  "enabled_flags window model preset is_expert_call =
     (if \<not> is_expert_call then
        enabled_default
          (lit ''web_search'' \<mapsto> config_get window (lit ''remote_tools.web_search'') (PyBool False),
           lit ''image'' \<mapsto> config_get window (lit ''remote_tools.image'') (PyBool False),
           lit ''code_interpreter'' \<mapsto>
             config_get window (lit ''remote_tools.code_interpreter'') (PyBool False),
           lit ''mcp'' \<mapsto> config_get window (lit ''remote_tools.mcp'') (PyBool False),
           lit ''file_search'' \<mapsto> config_get window (lit ''remote_tools.file_search'') (PyBool False),
           lit ''computer_use'' \<mapsto> PyBool (startswith (model_id model) (lit ''computer-use'')))
      else
        (case preset of
           None \<Rightarrow> enabled_default
         | Some p \<Rightarrow>
             (case remote_tools p of
                None \<Rightarrow> enabled_default
              | Some rt \<Rightarrow>
                  if rt = [] then enabled_default
                  else fold (\<lambda>i en. if en i \<noteq> None then en(i \<mapsto> PyBool True) else en)
                         (stripped_items rt) enabled_default)))"

definition file_search_tools :: "window \<Rightarrow> exn + tool list" where
  "file_search_tools window =
     (let vector_store_ids = config_get window (lit ''remote_tools.file_search.args'') (PyStr [])
      in if truthy vector_store_ids then
           (case vector_store_ids of
              PyStr s \<Rightarrow> Inr [FileSearchTool 3 (PyList (map PyStr (stripped_items s))) True]
            | _ \<Rightarrow> Inl (Exn AttributeError (lit ''object has no attribute split'')))
         else Inr [FileSearchTool 3 vector_store_ids True])"

definition mcp_tools :: "(str \<Rightarrow> exn + json) \<Rightarrow> window \<Rightarrow> exn + tool list" where
  "mcp_tools loads window =
     (let mcp_tool = config_get window (lit ''remote_tools.mcp.args'') (PyStr [])
      in if truthy mcp_tool then
           (case mcp_tool of
              PyStr s \<Rightarrow> (case loads s of Inl e \<Rightarrow> Inl e | Inr j \<Rightarrow> Inr [HostedMCPTool j])
            | _ \<Rightarrow> Inl (Exn TypeError (lit ''the JSON object must be str, bytes or bytearray'')))
         else Inr [])"

definition get_remote_tools ::
  "(str \<Rightarrow> exn + json) \<Rightarrow> disable_lists \<Rightarrow> window \<Rightarrow> model_item \<Rightarrow> preset_item option \<Rightarrow> bool
   \<Rightarrow> exn + tool list" where
  "get_remote_tools loads types window model preset is_expert_call =
     (if \<not> is_gpt model then Inr []
      else
        let enabled = enabled_flags window model preset is_expert_call in
        if truthy (item enabled (lit ''computer_use'')) then
          (if model_id model \<notin> set (disable_computer_use types)
           then Inr [ComputerTool (LocalComputer window) on_safety_check]
           else Inr [])
        else
          let tools1 =
                (if model_id model \<notin> set (disable_web_search types)
                    \<and> truthy (item enabled (lit ''web_search''))
                 then [WebSearchTool] else []);
              tools2 =
                (if model_id model \<notin> set (disable_code_interpreter types)
                    \<and> truthy (item enabled (lit ''code_interpreter''))
                 then [CodeInterpreterTool
                         (JObj [(lit ''type'', JStr (lit ''code_interpreter'')),
                                (lit ''container'', JObj [(lit ''type'', JStr (lit ''auto''))])])]
                 else []);
              tools3 =
                (if model_id model \<notin> set (disable_image types)
                    \<and> truthy (item enabled (lit ''image''))
                 then [ImageGenerationTool
                         (JObj [(lit ''type'', JStr (lit ''image_generation'')),
                                (lit ''quality'', JStr (lit ''low''))])]
                 else [])
          in
            (case (if model_id model \<notin> set (disable_file_search types)
                      \<and> truthy (item enabled (lit ''file_search''))
                   then file_search_tools window else Inr []) of
               Inl e \<Rightarrow> Inl e
             | Inr tools4 \<Rightarrow>
                 (case (if model_id model \<notin> set (disable_mcp types)
                           \<and> truthy (item enabled (lit ''mcp''))
                        then mcp_tools loads window else Inr []) of
                    Inl e \<Rightarrow> Inl e
                  | Inr tools5 \<Rightarrow> Inr (tools1 @ tools2 @ tools3 @ tools4 @ tools5))))"

section \<open>Notions used by the properties\<close>

text \<open>
  A runtime is quiet when the script injects no failure from here on; it is honest when
  it never reports "not found" for something that exists, so that an injected failure
  is never of class \<open>NotFound\<close>. Identifiers are unique when no two containers
  share one and none is ahead of the counter; names are unique when no two containers
  share a name.
\<close>

definition quiet :: "world \<Rightarrow> bool" where
  "quiet w \<longleftrightarrow> (\<forall>f \<in> set (faults w). f = None)"

definition honest :: "world \<Rightarrow> bool" where
  "honest w \<longleftrightarrow> (\<forall>f \<in> set (faults w). \<forall>e. f = Some e \<longrightarrow> \<not> is_NotFound e)"

definition ids_unique :: "world \<Rightarrow> bool" where
  "ids_unique w \<longleftrightarrow>
     distinct (map cid (containers w)) \<and> (\<forall>c \<in> set (containers w). cid c < next_cid w)"

definition names_unique :: "world \<Rightarrow> bool" where
  "names_unique w \<longleftrightarrow> distinct (map cname (containers w))"

text \<open>The lines that the loop over the build log prints.\<close>

fun stream_lines :: "(str \<times> str) list list \<Rightarrow> str list" where
  "stream_lines [] = []"
| "stream_lines (chunk # logs) =
     (case map_of chunk (lit ''stream'') of
        Some s \<Rightarrow> strip s # stream_lines logs
      | None \<Rightarrow> stream_lines logs)"

text \<open>Which calls ask the runtime to build an image, and which change a container.\<close>

fun is_build :: "call \<Rightarrow> bool" where
  "is_build (ImagesBuild ctx cc r t) = True"
| "is_build _ = False"

fun is_lifecycle :: "call \<Rightarrow> bool" where
  "is_lifecycle (ContainerRemove i) = True"
| "is_lifecycle (ContainersCreate a) = True"
| "is_lifecycle (ContainerStart i) = True"
| "is_lifecycle (ContainerStop i) = True"
| "is_lifecycle _ = False"

text \<open>
  A program is valid for a precondition, a postcondition of its normal end and one of
  its exceptional end.
\<close>

definition valid ::
  "(world \<Rightarrow> bool) \<Rightarrow> 'a prog \<Rightarrow> ('a \<Rightarrow> world \<Rightarrow> bool) \<Rightarrow> (exn \<Rightarrow> world \<Rightarrow> bool) \<Rightarrow> bool" where
  "valid P m Q E \<longleftrightarrow>
     (\<forall>w. P w \<longrightarrow> (case m w of (Inl e, w') \<Rightarrow> E e w' | (Inr x, w') \<Rightarrow> Q x w'))"

text \<open>
  The states of the runtime that the public operations of the class reach, in any order
  and with any arguments, from a state in which names are unique and the runtime honest.
\<close>

inductive reach :: "world \<Rightarrow> bool" where
  start: "names_unique w \<Longrightarrow> honest w \<Longrightarrow> reach w"
| by_execute: "reach w \<Longrightarrow> reach (snd (execute self cmd w))"
| by_create_container: "reach w \<Longrightarrow> reach (snd (create_container self n w))"
| by_stop_container: "reach w \<Longrightarrow> reach (snd (stop_container self n w))"
| by_end: "reach w \<Longrightarrow> reach (snd (end_all self a w))"

subsection \<open>Concrete objects for the examples\<close>

definition plugin0 :: plugin where
  "plugin0 =
     \<lparr>ipython_dockerfile = lit ''FROM python:3.11'', ipython_image_name = lit ''pygpt_image'',
      ipython_container_name = lit ''pygpt_container'', user_data_dir = lit ''/home/user/data''\<rparr>"

definition docker0 :: docker where
  "docker0 = init_docker plugin0"

text \<open>An empty runtime in which \<open>echo hi\<close> prints \<open>hi\<close> and a newline.\<close>

definition world0 :: world where
  "world0 =
     \<lparr>images = [], containers = [], next_cid = 1,
      exec_output = (\<lambda>cmd. if cmd = lit ''echo hi'' then [0x68, 0x69, 0x0A] else []),
      build_logs = [[(lit ''stream'', lit ''Step 1/1 : FROM python:3.11 '')]],
      faults = [], calls = [], stdout = []\<rparr>"

definition sandbox :: "str \<Rightarrow> container" where
  "sandbox s =
     \<lparr>cid = 7, cname = lit ''pygpt_container'', cimage = lit ''pygpt_image'', cstatus = s,
      cvolumes = [(lit ''/home/user/data'', lit ''/data'', lit ''rw'')], ctty = True,
      cstdin_open = True, ccommand = lit ''tail -f /dev/null''\<rparr>"

text \<open>A runtime that holds the image and the container, in the given status.\<close>

definition world_with :: "str \<Rightarrow> world" where
  "world_with s = world0\<lparr>images := [lit ''pygpt_image''], containers := [sandbox s], next_cid := 8\<rparr>"

definition window0 :: window where
  "window0 = \<lparr>config_get = (\<lambda>k d. if k = lit ''remote_tools.web_search'' then PyBool True else d)\<rparr>"

definition types0 :: disable_lists where
  "types0 =
     \<lparr>disable_code_interpreter = [], disable_computer_use = [], disable_image = [lit ''o1-mini''],
      disable_web_search = [], disable_file_search = [], disable_mcp = []\<rparr>"

definition loads0 :: "str \<Rightarrow> exn + json" where
  "loads0 s = Inr JNull"

section \<open>The codec: decoding then encoding gives the bytes back\<close>

lemma split2: "c < 64 \<Longrightarrow> (a * 64 + c) div 64 = (a::nat) \<and> (a * 64 + c) mod 64 = c"
  by simp

lemma div_4096: "(n::nat) div 4096 = n div 64 div 64"
  by (simp add: div_mult2_eq)

lemma div_262144: "(n::nat) div 262144 = n div 64 div 64 div 64"
  by (simp add: div_mult2_eq)

lemma split3:
  assumes "c1 < 64" "c2 < 64"
  shows "((a * 64 + c1) * 64 + c2) div 4096 = (a::nat) \<and>
   ((a * 64 + c1) * 64 + c2) div 64 mod 64 = c1 \<and>
   ((a * 64 + c1) * 64 + c2) mod 64 = c2"
  using split2 [OF assms(2), of "a * 64 + c1"] split2 [OF assms(1), of a]
  by (simp only: div_4096)

lemma split4:
  assumes "c1 < 64" "c2 < 64" "c3 < 64"
  shows "(((a * 64 + c1) * 64 + c2) * 64 + c3) div 262144 = (a::nat) \<and>
   (((a * 64 + c1) * 64 + c2) * 64 + c3) div 4096 mod 64 = c1 \<and>
   (((a * 64 + c1) * 64 + c2) * 64 + c3) div 64 mod 64 = c2 \<and>
   (((a * 64 + c1) * 64 + c2) * 64 + c3) mod 64 = c3"
  using split2 [OF assms(3), of "(a * 64 + c1) * 64 + c2"]
    split2 [OF assms(2), of "a * 64 + c1"] split2 [OF assms(1), of a]
  by (simp only: div_4096 div_262144)

lemma cont_bits_lt: "is_cont c \<Longrightarrow> cont_bits c < 64"
  unfolding is_cont_def cont_bits_def by linarith

lemma bound2: "(a::nat) < 32 \<Longrightarrow> c < 64 \<Longrightarrow> a * 64 + c < 2048"
  by linarith

lemma bound3:
  assumes "(a::nat) < 16" "c1 < 64" "c2 < 64"
  shows "(a * 64 + c1) * 64 + c2 < 65536"
proof -
  have "a * 64 + c1 \<le> 1023" using assms(1,2) by linarith
  then have "(a * 64 + c1) * 64 \<le> 1023 * 64" by (rule mult_le_mono1)
  then show ?thesis using assms(3) by linarith
qed

lemma lead_byte: "k \<le> unat (b::byte) \<Longrightarrow> of_nat (k + (unat b - k)) = b"
  by simp

lemma cont_byte: "is_cont c \<Longrightarrow> of_nat (0x80 + cont_bits c) = c"
  using lead_byte [of 128 c] by (simp add: is_cont_def cont_bits_def)

lemma enc1: "unat (b::byte) < 0x80 \<Longrightarrow> encode_cp (unat b) = Some [b]"
  by (simp add: encode_cp_def)

lemma enc2:
  assumes "0xC0 \<le> unat (b::byte)" "unat b < 0xE0" "is_cont c1"
    and cp: "cp = (unat b - 0xC0) * 64 + cont_bits c1" and lo: "0x80 \<le> cp"
  shows "encode_cp cp = Some [b, c1]"
proof -
  have c: "cont_bits c1 < 64" using assms(3) by (rule cont_bits_lt)
  have a: "unat b - 0xC0 < 32" using assms(1,2) by simp
  have lt: "cp < 0x800" unfolding cp using a c by (simp add: bound2)
  note s = split2 [OF c, of "unat b - 0xC0", folded cp]
  have b0: "of_nat (0xC0 + cp div 64) = b"
    using lead_byte [OF assms(1)] by (simp only: s)
  have b1: "of_nat (0x80 + cp mod 64) = c1"
    using cont_byte [OF assms(3)] by (simp only: s)
  have "encode_cp cp = Some [of_nat (0xC0 + cp div 64), of_nat (0x80 + cp mod 64)]"
    using lo lt by (simp add: encode_cp_def)
  then show ?thesis by (simp only: b0 b1)
qed

lemma enc3:
  assumes "0xE0 \<le> unat (b::byte)" "unat b < 0xF0" "is_cont c1" "is_cont c2"
    and cp: "cp = ((unat b - 0xE0) * 64 + cont_bits c1) * 64 + cont_bits c2"
    and lo: "0x800 \<le> cp" and sur: "\<not> (0xD800 \<le> cp \<and> cp < 0xE000)"
  shows "encode_cp cp = Some [b, c1, c2]"
proof -
  have c1: "cont_bits c1 < 64" using assms(3) by (rule cont_bits_lt)
  have c2: "cont_bits c2 < 64" using assms(4) by (rule cont_bits_lt)
  have a: "unat b - 0xE0 < 16" using assms(1,2) by simp
  have lt: "cp < 0x10000" unfolding cp using a c1 c2 by (simp add: bound3)
  note s = split3 [OF c1 c2, of "unat b - 0xE0", folded cp]
  have b0: "of_nat (0xE0 + cp div 4096) = b"
    using lead_byte [OF assms(1)] by (simp only: s)
  have b1: "of_nat (0x80 + cp div 64 mod 64) = c1"
    using cont_byte [OF assms(3)] by (simp only: s)
  have b2: "of_nat (0x80 + cp mod 64) = c2"
    using cont_byte [OF assms(4)] by (simp only: s)
  have "encode_cp cp = Some [of_nat (0xE0 + cp div 4096),
          of_nat (0x80 + cp div 64 mod 64), of_nat (0x80 + cp mod 64)]"
    using lo sur lt by (simp add: encode_cp_def)
  then show ?thesis by (simp only: b0 b1 b2)
qed

lemma enc4:
  assumes "0xF0 \<le> unat (b::byte)" "is_cont c1" "is_cont c2" "is_cont c3"
    and cp: "cp = (((unat b - 0xF0) * 64 + cont_bits c1) * 64 + cont_bits c2) * 64
                  + cont_bits c3"
    and lo: "0x10000 \<le> cp" and hi: "cp < 0x110000"
  shows "encode_cp cp = Some [b, c1, c2, c3]"
proof -
  have c1: "cont_bits c1 < 64" using assms(2) by (rule cont_bits_lt)
  have c2: "cont_bits c2 < 64" using assms(3) by (rule cont_bits_lt)
  have c3: "cont_bits c3 < 64" using assms(4) by (rule cont_bits_lt)
  note s = split4 [OF c1 c2 c3, of "unat b - 0xF0", folded cp]
  have b0: "of_nat (0xF0 + cp div 262144) = b"
    using lead_byte [OF assms(1)] by (simp only: s)
  have b1: "of_nat (0x80 + cp div 4096 mod 64) = c1"
    using cont_byte [OF assms(2)] by (simp only: s)
  have b2: "of_nat (0x80 + cp div 64 mod 64) = c2"
    using cont_byte [OF assms(3)] by (simp only: s)
  have b3: "of_nat (0x80 + cp mod 64) = c3"
    using cont_byte [OF assms(4)] by (simp only: s)
  have "encode_cp cp = Some [of_nat (0xF0 + cp div 262144),
          of_nat (0x80 + cp div 4096 mod 64), of_nat (0x80 + cp div 64 mod 64),
          of_nat (0x80 + cp mod 64)]"
    using lo hi by (simp add: encode_cp_def)
  then show ?thesis by (simp only: b0 b1 b2 b3)
qed


lemma decode_step:
  assumes d: "decode_utf8 (b # bs) = Some cps"
  shows "\<exists>cp cps' pre r. cps = cp # cps' \<and> b # bs = pre @ r \<and> pre \<noteq> [] \<and>
           encode_cp cp = Some pre \<and> decode_utf8 r = Some cps'"
proof -
  let ?n = "unat b"
  consider (one) "?n < 0x80" | (bad) "0x80 \<le> ?n" "?n < 0xC0"
    | (two) "0xC0 \<le> ?n" "?n < 0xE0" | (three) "0xE0 \<le> ?n" "?n < 0xF0"
    | (four) "0xF0 \<le> ?n" "?n < 0xF8" | (high) "0xF8 \<le> ?n"
    by linarith
  then show ?thesis
  proof cases
    case one
    with d obtain cps' where "decode_utf8 bs = Some cps'" "cps = ?n # cps'"
      by (auto simp: Let_def)
    with one show ?thesis
      using enc1 [OF one] by (intro exI [of _ ?n] exI [of _ cps'] exI [of _ "[b]"] exI [of _ bs]) simp
  next
    case bad
    with d show ?thesis by (simp add: Let_def)
  next
    case two
    then have n: "\<not> ?n < 0x80" "\<not> ?n < 0xC0" by linarith+
    from d n two obtain c1 r where bs: "bs = c1 # r"
      by (cases bs) (simp_all add: Let_def)
    define cp where "cp = (?n - 0xC0) * 64 + cont_bits c1"
    from d n two bs have c: "is_cont c1" "0x80 \<le> cp"
      and r: "map_option ((#) cp) (decode_utf8 r) = Some cps"
      by (simp_all add: Let_def cp_def split: if_splits)
    from r obtain cps' where "decode_utf8 r = Some cps'" "cps = cp # cps'" by auto
    moreover have "encode_cp cp = Some [b, c1]"
      using two c cp_def by (intro enc2) simp_all
    ultimately show ?thesis
      using bs by (intro exI [of _ cp] exI [of _ cps'] exI [of _ "[b, c1]"] exI [of _ r]) simp
  next
    case three
    then have n: "\<not> ?n < 0x80" "\<not> ?n < 0xC0" "\<not> ?n < 0xE0" by linarith+
    from d n three obtain c1 c2 r where bs: "bs = c1 # c2 # r"
      by (cases bs; cases "tl bs") (simp_all add: Let_def)
    define cp where "cp = ((?n - 0xE0) * 64 + cont_bits c1) * 64 + cont_bits c2"
    from d n three bs have c: "is_cont c1" "is_cont c2" "0x800 \<le> cp"
        "\<not> (0xD800 \<le> cp \<and> cp < 0xE000)"
      and r: "map_option ((#) cp) (decode_utf8 r) = Some cps"
      by (simp_all add: Let_def cp_def split: if_splits)
    from r obtain cps' where "decode_utf8 r = Some cps'" "cps = cp # cps'" by auto
    moreover have "encode_cp cp = Some [b, c1, c2]"
      using three c cp_def by (intro enc3) simp_all
    ultimately show ?thesis
      using bs
      by (intro exI [of _ cp] exI [of _ cps'] exI [of _ "[b, c1, c2]"] exI [of _ r]) simp
  next
    case four
    then have n: "\<not> ?n < 0x80" "\<not> ?n < 0xC0" "\<not> ?n < 0xE0" "\<not> ?n < 0xF0" by linarith+
    from d n four obtain c1 c2 c3 r where bs: "bs = c1 # c2 # c3 # r"
      by (cases bs; cases "tl bs"; cases "tl (tl bs)") (simp_all add: Let_def)
    define cp where
      "cp = (((?n - 0xF0) * 64 + cont_bits c1) * 64 + cont_bits c2) * 64 + cont_bits c3"
    from d n four bs have c: "is_cont c1" "is_cont c2" "is_cont c3" "0x10000 \<le> cp"
        "cp < 0x110000"
      and r: "map_option ((#) cp) (decode_utf8 r) = Some cps"
      by (simp_all add: Let_def cp_def split: if_splits)
    from r obtain cps' where "decode_utf8 r = Some cps'" "cps = cp # cps'" by auto
    moreover have "encode_cp cp = Some [b, c1, c2, c3]"
      using four c cp_def by (intro enc4) simp_all
    ultimately show ?thesis
      using bs
      by (intro exI [of _ cp] exI [of _ cps'] exI [of _ "[b, c1, c2, c3]"] exI [of _ r]) simp
  next
    case high
    then have "\<not> ?n < 0x80" "\<not> ?n < 0xC0" "\<not> ?n < 0xE0" "\<not> ?n < 0xF0" "\<not> ?n < 0xF8"
      by linarith+
    with d show ?thesis by (simp add: Let_def)
  qed
qed

lemma decode_encode: "decode_utf8 bs = Some cps \<Longrightarrow> encode_utf8 cps = Some bs"
proof (induction bs arbitrary: cps rule: length_induct)
  case (1 bs)
  show ?case
  proof (cases bs)
    case Nil
    with "1.prems" show ?thesis by simp
  next
    case (Cons b bs')
    with "1.prems" obtain cp cps' pre r where
      s: "cps = cp # cps'" "b # bs' = pre @ r" "pre \<noteq> []"
         "encode_cp cp = Some pre" "decode_utf8 r = Some cps'"
      using decode_step by blast
    have "length bs = length pre + length r"
      using s(2) Cons by (metis length_append)
    with s(3) have "length r < length bs" by (cases pre) simp_all
    with "1.IH" s(5) have "encode_utf8 cps' = Some r" by blast
    with s Cons show ?thesis by simp
  qed
qed

section \<open>Unfolding the model on concrete inputs\<close>

lemmas run_defs =
  execute_def try_block_def seq_def get_docker_client_def from_env_def
  api_def next_fault_def advance_def ret_def raise_def image_check_def is_image_def try_except_def
  get_image_name_def images_get_def no_such_image_def is_ImageNotFound_def py_print_def
  build_image_def lift_def create_docker_context_def get_dockerfile_def str_encode_def lit_def
  encode_cp_def log_def images_build_def strip_def is_space_def run_in_container_def
  create_container_def get_container_name_def get_local_data_dir_def containers_get_def
  by_name_def by_id_def no_such_container_def is_NotFound_def containers_create_def
  container_args_def new_container_def container_start_def set_status_def
  container_exec_run_def bytes_decode_def Let_def container_reload_def container_remove_def
  container_stop_def stop_container_def is_docker_installed_def client_ping_def
  is_DockerException_def docker0_def plugin0_def init_docker_def world0_def world_with_def
  sandbox_def

section \<open>Calls on a quiet runtime\<close>

lemma quiet_next_fault: "quiet w \<Longrightarrow> next_fault w = None"
  by (cases "faults w") (simp_all add: quiet_def next_fault_def)

lemma quiet_advance: "quiet w \<Longrightarrow> quiet (advance c w)"
  by (cases "faults w") (simp_all add: quiet_def advance_def)

lemma quiet_upd [simp]:
  "quiet (w\<lparr>images := a\<rparr>) = quiet w"
  "quiet (w\<lparr>containers := b\<rparr>) = quiet w"
  "quiet (w\<lparr>next_cid := k\<rparr>) = quiet w"
  "quiet (w\<lparr>calls := d\<rparr>) = quiet w"
  "quiet (w\<lparr>stdout := e\<rparr>) = quiet w"
  by (simp_all add: quiet_def)

lemma quiet_set_status [simp]: "quiet (set_status i s w) = quiet w"
  by (simp add: set_status_def)

lemma api_quiet: "quiet w \<Longrightarrow> api c nominal w = nominal (advance c w)"
  by (simp add: api_def quiet_next_fault)

lemma advance_fields [simp]:
  "images (advance c w) = images w"
  "containers (advance c w) = containers w"
  "next_cid (advance c w) = next_cid w"
  "exec_output (advance c w) = exec_output w"
  "build_logs (advance c w) = build_logs w"
  "stdout (advance c w) = stdout w"
  "calls (advance c w) = calls w @ [c]"
  by (simp_all add: advance_def)

lemma by_advance [simp]:
  "by_name n (advance c w) = by_name n w" "by_id i (advance c w) = by_id i w"
  by (simp_all add: by_name_def by_id_def)

lemma by_name_by_id: "by_name n w = Some c \<Longrightarrow> \<exists>c'. by_id (cid c) w = Some c'"
proof -
  assume "by_name n w = Some c"
  then have "c \<in> set (containers w)"
    by (auto simp: by_name_def find_Some_iff)
  then have "find (\<lambda>x. cid x = cid c) (containers w) \<noteq> None"
    by (auto simp: find_None_iff)
  then show ?thesis by (auto simp: by_id_def)
qed

lemma filter_set_status:
  "filter (\<lambda>x. cid x \<noteq> i) (map (\<lambda>x. if cid x = i then x\<lparr>cstatus := s\<rparr> else x) xs)
   = filter (\<lambda>x. cid x \<noteq> i) xs"
  by (induction xs) simp_all

lemma set_status_fields [simp]:
  "images (set_status i s w) = images w"
  "next_cid (set_status i s w) = next_cid w"
  "calls (set_status i s w) = calls w"
  "stdout (set_status i s w) = stdout w"
  "faults (set_status i s w) = faults w"
  "exec_output (set_status i s w) = exec_output w"
  by (simp_all add: set_status_def)

lemma by_id_set_status:
  "by_id j (set_status i s w) = map_option (\<lambda>x. if cid x = i then x\<lparr>cstatus := s\<rparr> else x) (by_id j w)"
proof -
  have "find (\<lambda>x. cid x = j) (map (\<lambda>x. if cid x = i then x\<lparr>cstatus := s\<rparr> else x) xs)
        = map_option (\<lambda>x. if cid x = i then x\<lparr>cstatus := s\<rparr> else x) (find (\<lambda>x. cid x = j) xs)"
    for xs
    by (induction xs) auto
  then show ?thesis by (simp add: by_id_def set_status_def)
qed


section \<open>The methods on a quiet runtime\<close>

lemmas prog_defs = seq_def try_except_def ret_def raise_def lift_def py_print_def log_def

lemma by_name_unique_id:
  assumes "ids_unique w" and "by_name n w = Some c"
  shows "by_id (cid c) w = Some c"
proof -
  have "distinct (map cid xs) \<Longrightarrow> c \<in> set xs \<Longrightarrow> find (\<lambda>x. cid x = cid c) xs = Some c"
    for xs :: "container list"
    by (induction xs) (auto simp: rev_image_eqI)
  moreover from assms(2) have "c \<in> set (containers w)"
    by (auto simp: by_name_def find_Some_iff)
  ultimately show ?thesis
    using assms(1) by (simp add: ids_unique_def by_id_def)
qed

lemma is_image_quiet:
  assumes "quiet w"
  shows "fst (is_image self w) = Inr (get_image_name self \<in> set (images w)) \<and>
         calls (snd (is_image self w)) = calls w @ [FromEnv, ImagesGet (get_image_name self)] \<and>
         images (snd (is_image self w)) = images w \<and>
         containers (snd (is_image self w)) = containers w \<and>
         next_cid (snd (is_image self w)) = next_cid w \<and>
         exec_output (snd (is_image self w)) = exec_output w \<and>
         quiet (snd (is_image self w))"
  using assms
  by (simp add: is_image_def get_docker_client_def from_env_def images_get_def prog_defs
      api_quiet quiet_advance no_such_image_def is_ImageNotFound_def)

lemma log_stream_lines:
  "log_stream logs w = (Inr (), w\<lparr>stdout := stdout w @ stream_lines logs\<rparr>)"
  by (induction logs arbitrary: w) (simp_all add: prog_defs split: option.splits)

lemma build_image_quiet:
  assumes "quiet w" and "encode_utf8 (get_dockerfile self) = Some data"
  shows "fst (build_image self w) = Inr () \<and>
         calls (snd (build_image self w)) =
           calls w @ [FromEnv, ImagesBuild [(lit ''Dockerfile'', length data, data)] True True
                                 (get_image_name self)] \<and>
         images (snd (build_image self w)) = List.insert (get_image_name self) (images w) \<and>
         containers (snd (build_image self w)) = containers w \<and>
         next_cid (snd (build_image self w)) = next_cid w \<and>
         exec_output (snd (build_image self w)) = exec_output w \<and>
         quiet (snd (build_image self w))"
  using assms
  by (simp add: build_image_def get_docker_client_def from_env_def images_build_def prog_defs
      api_quiet quiet_advance create_docker_context_def str_encode_def log_stream_lines)

lemma seq_alt:
  "seq m f w = (case fst (m w) of Inl e \<Rightarrow> (Inl e, snd (m w)) | Inr x \<Rightarrow> f x (snd (m w)))"
  by (cases "m w") (simp add: seq_def split: sum.splits)

lemma try_alt:
  "try_except m h w = (case fst (m w) of Inl e \<Rightarrow> h e (snd (m w)) | Inr x \<Rightarrow> (Inr x, snd (m w)))"
  by (cases "m w") (simp add: try_except_def split: sum.splits)

lemma image_check_quiet:
  assumes q: "quiet w"
    and d: "get_image_name self \<in> set (images w) \<or> encode_utf8 (get_dockerfile self) = Some data"
  shows "fst (image_check self w) = Inr () \<and>
         calls (snd (image_check self w)) =
           calls w @ (if get_image_name self \<in> set (images w)
                      then [FromEnv, ImagesGet (get_image_name self)]
                      else [FromEnv, ImagesGet (get_image_name self), FromEnv,
                            ImagesBuild [(lit ''Dockerfile'', length data, data)] True True
                              (get_image_name self)]) \<and>
         get_image_name self \<in> set (images (snd (image_check self w))) \<and>
         containers (snd (image_check self w)) = containers w \<and>
         next_cid (snd (image_check self w)) = next_cid w \<and>
         exec_output (snd (image_check self w)) = exec_output w \<and>
         quiet (snd (image_check self w))"
proof (cases "get_image_name self \<in> set (images w)")
  case True
  with is_image_quiet [OF q, of self] show ?thesis
    by (simp add: image_check_def seq_alt ret_def)
next
  case False
  with d have e: "encode_utf8 (get_dockerfile self) = Some data" by simp
  from is_image_quiet [OF q, of self] False
  have i: "fst (is_image self w) = Inr False" and qi: "quiet (snd (is_image self w))"
    by simp_all
  from build_image_quiet [OF qi e] is_image_quiet [OF q, of self] False show ?thesis
    by (simp add: image_check_def seq_alt i)
qed


lemma set_status_fresh:
  assumes "\<forall>x \<in> set xs. cid x \<noteq> i"
  shows "map (\<lambda>x. if cid x = i then x\<lparr>cstatus := s\<rparr> else x) xs = xs"
  using assms by (induction xs) simp_all

lemma ids_below: "ids_unique w \<Longrightarrow> \<forall>x \<in> set (containers w). cid x \<noteq> next_cid w"
  by (auto simp: ids_unique_def)

lemmas ensure_defs =
  create_container_def get_docker_client_def from_env_def containers_get_def
  container_reload_def container_remove_def containers_create_def container_start_def
  prog_defs api_quiet quiet_advance Let_def no_such_container_def is_NotFound_def
  container_args_def get_image_name_def get_local_data_dir_def

lemma create_container_running:
  assumes "quiet w" and "ids_unique w" and "by_name n w = Some c"
    and "cstatus c = lit ''running''"
  shows "fst (create_container self n w) = Inr () \<and>
         calls (snd (create_container self n w)) =
           calls w @ [FromEnv, ContainersGet n, ContainerReload (cid c)] \<and>
         containers (snd (create_container self n w)) = containers w \<and>
         images (snd (create_container self n w)) = images w \<and>
         next_cid (snd (create_container self n w)) = next_cid w \<and>
         exec_output (snd (create_container self n w)) = exec_output w \<and>
         stdout (snd (create_container self n w)) = stdout w \<and>
         quiet (snd (create_container self n w))"
  using assms by_name_unique_id [OF assms(2,3)]
  by (simp add: ensure_defs)

lemma create_container_stale:
  assumes "quiet w" and "ids_unique w" and "by_name n w = Some c"
    and "cstatus c \<noteq> lit ''running''" and "get_image_name self \<in> set (images w)"
  shows "fst (create_container self n w) = Inr () \<and>
         calls (snd (create_container self n w)) =
           calls w @ [FromEnv, ContainersGet n, ContainerReload (cid c), ContainerRemove (cid c),
                      ContainersCreate (container_args (get_image_name self) n
                                          (get_local_data_dir self)),
                      ContainerStart (next_cid w)] \<and>
         containers (snd (create_container self n w)) =
           (new_container (next_cid w)
              (container_args (get_image_name self) n (get_local_data_dir self)))
             \<lparr>cstatus := lit ''running''\<rparr>
           # filter (\<lambda>x. cid x \<noteq> cid c) (containers w) \<and>
         images (snd (create_container self n w)) = images w \<and>
         next_cid (snd (create_container self n w)) = Suc (next_cid w) \<and>
         exec_output (snd (create_container self n w)) = exec_output w \<and>
         quiet (snd (create_container self n w))"
proof -
  have f: "\<forall>x \<in> set (filter (\<lambda>x. cid x \<noteq> cid c) (containers w)). cid x \<noteq> next_cid w"
    using ids_below [OF assms(2)] by simp
  show ?thesis
    using assms by_name_unique_id [OF assms(2,3)]
    by (simp add: ensure_defs by_id_def set_status_def new_container_def
        set_status_fresh [OF f])
qed

lemma create_container_absent:
  assumes "quiet w" and "ids_unique w" and "by_name n w = None"
    and "get_image_name self \<in> set (images w)"
  shows "fst (create_container self n w) = Inr () \<and>
         calls (snd (create_container self n w)) =
           calls w @ [FromEnv, ContainersGet n,
                      ContainersCreate (container_args (get_image_name self) n
                                          (get_local_data_dir self)),
                      ContainerStart (next_cid w)] \<and>
         containers (snd (create_container self n w)) =
           (new_container (next_cid w)
              (container_args (get_image_name self) n (get_local_data_dir self)))
             \<lparr>cstatus := lit ''running''\<rparr>
           # containers w \<and>
         images (snd (create_container self n w)) = images w \<and>
         next_cid (snd (create_container self n w)) = Suc (next_cid w) \<and>
         exec_output (snd (create_container self n w)) = exec_output w \<and>
         quiet (snd (create_container self n w))"
  using assms
  by (simp add: ensure_defs by_id_def set_status_def new_container_def
      set_status_fresh [OF ids_below [OF assms(2)]])

lemma run_after_ensure:
  assumes "fst (create_container self n w) = Inr ()"
    and "quiet (snd (create_container self n w))"
    and "by_name n (snd (create_container self n w)) = Some c"
  shows "fst (run_in_container self n cmd w) =
           Inr (exec_output (snd (create_container self n w)) cmd) \<and>
         calls (snd (run_in_container self n cmd w)) =
           calls (snd (create_container self n w))
             @ [ContainersGet n, ContainerExecRun (cid c) cmd True True] \<and>
         containers (snd (run_in_container self n cmd w)) =
           containers (snd (create_container self n w)) \<and>
         images (snd (run_in_container self n cmd w)) = images (snd (create_container self n w))"
proof -
  from by_name_by_id [OF assms(3)] obtain c' where
    "by_id (cid c) (snd (create_container self n w)) = Some c'" by blast
  with assms show ?thesis
    by (simp add: run_in_container_def seq_alt containers_get_def container_exec_run_def
        api_quiet quiet_advance)
qed


lemma same_containers:
  assumes "containers w' = containers w" and "next_cid w' = next_cid w"
  shows "by_name n w' = by_name n w" and "ids_unique w' = ids_unique w"
  using assms by (simp_all add: by_name_def ids_unique_def)

lemma get_docker_client_quiet:
  assumes "quiet w"
  shows "fst (get_docker_client w) = Inr () \<and> snd (get_docker_client w) = advance FromEnv w"
  using assms by (simp add: get_docker_client_def from_env_def api_quiet ret_def)

lemma execute_state:
  assumes "fst (get_docker_client w) = Inr u"
    and "fst (image_check self (snd (get_docker_client w))) = Inr v"
  shows "calls (snd (execute self cmd w)) =
           calls (snd (run_in_container self (get_container_name self) cmd
                    (snd (image_check self (snd (get_docker_client w)))))) \<and>
         containers (snd (execute self cmd w)) =
           containers (snd (run_in_container self (get_container_name self) cmd
                    (snd (image_check self (snd (get_docker_client w)))))) \<and>
         images (snd (execute self cmd w)) =
           images (snd (run_in_container self (get_container_name self) cmd
                    (snd (image_check self (snd (get_docker_client w))))))"
  using assms
  by (simp add: execute_def try_block_def seq_alt try_alt Let_def lift_def log_def py_print_def
      split: sum.splits)

lemma run_in_container_quiet:
  assumes q: "quiet w" and u: "ids_unique w" and i: "get_image_name self \<in> set (images w)"
  shows "\<exists>rest k. calls (snd (run_in_container self n cmd w)) = calls w @ rest \<and>
           (\<forall>x \<in> set rest. \<not> is_build x) \<and> ContainerExecRun k cmd True True \<in> set rest"
proof (cases "by_name n w")
  case None
  note e = create_container_absent [OF q u None i]
  let ?c = "(new_container (next_cid w)
      (container_args (get_image_name self) n (get_local_data_dir self)))\<lparr>cstatus := lit ''running''\<rparr>"
  from e have "by_name n (snd (create_container self n w)) = Some ?c"
    by (simp add: by_name_def new_container_def container_args_def)
  from run_after_ensure [OF _ _ this, of cmd] e show ?thesis by simp
next
  case (Some c)
  show ?thesis
  proof (cases "cstatus c = lit ''running''")
    case True
    note e = create_container_running [OF q u Some True, of self]
    from e Some have "by_name n (snd (create_container self n w)) = Some c"
      by (simp add: by_name_def)
    from run_after_ensure [OF _ _ this, of cmd] e show ?thesis by simp
  next
    case False
    note e = create_container_stale [OF q u Some False i]
    let ?c = "(new_container (next_cid w)
      (container_args (get_image_name self) n (get_local_data_dir self)))\<lparr>cstatus := lit ''running''\<rparr>"
    from e have "by_name n (snd (create_container self n w)) = Some ?c"
      by (simp add: by_name_def new_container_def container_args_def)
    from run_after_ensure [OF _ _ this, of cmd] e show ?thesis by simp
  qed
qed

lemma execute_prelude_quiet:
  assumes q: "quiet w" and u: "ids_unique w"
    and d: "get_image_name self \<in> set (images w) \<or> encode_utf8 (get_dockerfile self) = Some data"
  shows "fst (get_docker_client w) = Inr ()"
    and "fst (image_check self (snd (get_docker_client w))) = Inr ()"
    and "calls (snd (image_check self (snd (get_docker_client w)))) =
           calls w @ FromEnv #
             (if get_image_name self \<in> set (images w)
              then [FromEnv, ImagesGet (get_image_name self)]
              else [FromEnv, ImagesGet (get_image_name self), FromEnv,
                    ImagesBuild [(lit ''Dockerfile'', length data, data)] True True
                      (get_image_name self)])"
    and "quiet (snd (image_check self (snd (get_docker_client w))))"
    and "ids_unique (snd (image_check self (snd (get_docker_client w))))"
    and "get_image_name self \<in> set (images (snd (image_check self (snd (get_docker_client w)))))"
    and "by_name n (snd (image_check self (snd (get_docker_client w)))) = by_name n w"
    and "next_cid (snd (image_check self (snd (get_docker_client w)))) = next_cid w"
    and "containers (snd (image_check self (snd (get_docker_client w)))) = containers w"
proof -
  let ?w1 = "snd (get_docker_client w)"
  let ?w2 = "snd (image_check self ?w1)"
  note g = get_docker_client_quiet [OF q]
  from g q have q1: "quiet ?w1" by (simp add: quiet_advance)
  from d g have d1: "get_image_name self \<in> set (images ?w1)
      \<or> encode_utf8 (get_dockerfile self) = Some data" by simp
  note ic = image_check_quiet [OF q1 d1]
  from ic g have same: "containers ?w2 = containers w" "next_cid ?w2 = next_cid w" by simp_all
  show "fst (get_docker_client w) = Inr ()" using g by simp
  show "fst (image_check self ?w1) = Inr ()" using ic by simp
  show "calls ?w2 = calls w @ FromEnv #
             (if get_image_name self \<in> set (images w)
              then [FromEnv, ImagesGet (get_image_name self)]
              else [FromEnv, ImagesGet (get_image_name self), FromEnv,
                    ImagesBuild [(lit ''Dockerfile'', length data, data)] True True
                      (get_image_name self)])"
    using ic g by simp
  show "quiet ?w2" using ic by simp
  show "ids_unique ?w2" using u by (simp only: same_containers(2) [OF same])
  show "get_image_name self \<in> set (images ?w2)" using ic by simp
  show "by_name n ?w2 = by_name n w" by (rule same_containers(1) [OF same])
  show "next_cid ?w2 = next_cid w" by (rule same(2))
  show "containers ?w2 = containers w" by (rule same(1))
qed

lemma world_with_facts:
  "quiet (world_with s)" "ids_unique (world_with s)"
  "by_name (lit ''pygpt_container'') (world_with s) = Some (sandbox s)"
  "get_image_name docker0 \<in> set (images (world_with s))"
  "calls (world_with s) = []" "next_cid (world_with s) = 8"
  "containers (world_with s) = [sandbox s]"
  "cstatus (sandbox s) = s" "cid (sandbox s) = 7"
  "lit ''pygpt_image'' \<in> set (images (world_with s))"
  by (simp_all add: quiet_def ids_unique_def by_name_def world_with_def world0_def sandbox_def
      get_image_name_def docker0_def init_docker_def plugin0_def)

lemma docker0_facts:
  "get_container_name docker0 = lit ''pygpt_container''"
  "get_image_name docker0 = lit ''pygpt_image''"
  "get_local_data_dir docker0 = lit ''/home/user/data''"
  by (simp_all add: get_image_name_def get_container_name_def get_local_data_dir_def docker0_def
      init_docker_def plugin0_def)

lemma world0_facts:
  "quiet world0" "ids_unique world0" "get_image_name docker0 \<notin> set (images world0)"
  "encode_utf8 (get_dockerfile docker0) = Some (map of_nat (lit ''FROM python:3.11''))"
  "calls world0 = []"
  by (simp_all add: quiet_def ids_unique_def world0_def get_dockerfile_def docker0_def
      init_docker_def plugin0_def lit_def encode_cp_def)

section \<open>Teardown\<close>

text \<open>
  C5. On a runtime that answers, \<open>stop_container\<close> returns normally in both cases. When a
  container of the name exists it asks the runtime to stop it and then to remove it, and
  the container is gone. When none exists, it makes no call beyond the lookup and leaves
  the containers and the images as they were: the "not found" of the lookup only prints
  a line.
\<close>

theorem stop_container_teardown:
  assumes q: "quiet w"
  shows "(\<forall>c. by_name n w = Some c \<longrightarrow>
            fst (stop_container self n w) = Inr () \<and>
            calls (snd (stop_container self n w)) =
              calls w @ [FromEnv, ContainersGet n, ContainerStop (cid c), ContainerRemove (cid c)] \<and>
            containers (snd (stop_container self n w)) =
              filter (\<lambda>x. cid x \<noteq> cid c) (containers w)) \<and>
         (by_name n w = None \<longrightarrow>
            fst (stop_container self n w) = Inr () \<and>
            calls (snd (stop_container self n w)) = calls w @ [FromEnv, ContainersGet n] \<and>
            containers (snd (stop_container self n w)) = containers w \<and>
            images (snd (stop_container self n w)) = images w)"
proof (intro conjI allI impI)
  fix c assume c: "by_name n w = Some c"
  from by_name_by_id [OF c] obtain c' where c': "by_id (cid c) w = Some c'" by blast
  have r: "stop_container self n w =
     (Inr (), (set_status (cid c) (lit ''exited'')
        (advance (ContainerStop (cid c)) (advance (ContainersGet n) (advance FromEnv w))))
       \<lparr>calls := calls w @ [FromEnv, ContainersGet n, ContainerStop (cid c), ContainerRemove (cid c)],
        faults := tl (tl (tl (tl (faults w)))),
        containers := filter (\<lambda>x. cid x \<noteq> cid c) (containers w)\<rparr>)"
    using q c c'
    apply (simp add: stop_container_def seq_def try_except_def get_docker_client_def from_env_def
        containers_get_def container_stop_def container_remove_def api_quiet quiet_advance ret_def
        by_id_set_status)
    apply (simp add: advance_def set_status_def filter_set_status)
    done
  show "fst (stop_container self n w) = Inr ()" by (simp add: r)
  show "calls (snd (stop_container self n w)) =
      calls w @ [FromEnv, ContainersGet n, ContainerStop (cid c), ContainerRemove (cid c)]"
    by (simp add: r)
  show "containers (snd (stop_container self n w)) = filter (\<lambda>x. cid x \<noteq> cid c) (containers w)"
    by (simp add: r)
next
  assume a: "by_name n w = None"
  have r: "stop_container self n w =
     (Inr (), (advance (ContainersGet n) (advance FromEnv w))
        \<lparr>stdout := stdout w @ [lit ''Container '' @ [39] @ n @ [39] @ lit '' not found.'']\<rparr>)"
    using q a
    by (simp add: stop_container_def seq_def try_except_def get_docker_client_def from_env_def
        containers_get_def api_quiet quiet_advance ret_def no_such_container_def is_NotFound_def
        log_def py_print_def)
  show "fst (stop_container self n w) = Inr ()" by (simp add: r)
  show "calls (snd (stop_container self n w)) = calls w @ [FromEnv, ContainersGet n]"
    by (simp add: r)
  show "containers (snd (stop_container self n w)) = containers w" by (simp add: r)
  show "images (snd (stop_container self n w)) = images w" by (simp add: r)
qed


theorem stop_container_teardown_witness:
  "quiet (world_with (lit ''running'')) \<and>
   fst (stop_container docker0 (lit ''pygpt_container'') (world_with (lit ''running''))) = Inr () \<and>
   containers (snd (stop_container docker0 (lit ''pygpt_container'') (world_with (lit ''running''))))
     = [] \<and>
   fst (stop_container docker0 (lit ''other'') (world_with (lit ''running''))) = Inr () \<and>
   containers (snd (stop_container docker0 (lit ''other'') (world_with (lit ''running''))))
     = [sandbox (lit ''running'')]"
proof -
  let ?w = "world_with (lit ''running'')"
  have q: "quiet ?w"
    by (simp add: quiet_def world_with_def world0_def)
  have p: "by_name (lit ''pygpt_container'') ?w = Some (sandbox (lit ''running''))"
    by (simp add: by_name_def world_with_def world0_def sandbox_def)
  have a: "by_name (lit ''other'') ?w = None"
    by (simp add: by_name_def world_with_def world0_def sandbox_def lit_def)
  have c: "containers ?w = [sandbox (lit ''running'')]"
    by (simp add: world_with_def)
  from stop_container_teardown [OF q, of "lit ''pygpt_container''" docker0] p
  have 1: "fst (stop_container docker0 (lit ''pygpt_container'') ?w) = Inr ()"
    and 2: "containers (snd (stop_container docker0 (lit ''pygpt_container'') ?w)) = []"
    by (simp_all add: c)
  from stop_container_teardown [OF q, of "lit ''other''" docker0] a
  have 3: "fst (stop_container docker0 (lit ''other'') ?w) = Inr ()"
    and 4: "containers (snd (stop_container docker0 (lit ''other'') ?w)) = [sandbox (lit ''running'')]"
    by (simp_all add: c)
  from q 1 2 3 4 show ?thesis by simp
qed

section \<open>Is the runtime there?\<close>

text \<open>
  C8, as the code has it. With \<open>self.client\<close> unset, \<open>is_docker_installed\<close> obtains a
  client and pings the runtime. It returns \<open>False\<close> when either call raises a
  \<open>DockerException\<close> (of any subclass), \<open>True\<close> when neither raises, and an exception
  of any other class leaves the method: the handler names \<open>DockerException\<close> only.
\<close>

theorem is_docker_installed_result:
  assumes "client self = None"
  shows "fst (is_docker_installed self w) =
     (case next_fault w of
        Some e \<Rightarrow> if is_DockerException e then Inr False else Inl e
      | None \<Rightarrow>
          (case next_fault (advance FromEnv w) of
             Some e \<Rightarrow> if is_DockerException e then Inr False else Inl e
           | None \<Rightarrow> Inr True))
   \<and> calls (snd (is_docker_installed self w)) =
       calls w @ (if next_fault w = None then [FromEnv, Ping] else [FromEnv])"
  using assms
  by (simp add: is_docker_installed_def try_except_def seq_def from_env_def client_ping_def
      api_def ret_def raise_def advance_def split: option.splits)

theorem is_docker_installed_result_witness:
  "client docker0 = None \<and>
   fst (is_docker_installed docker0 world0) = Inr True \<and>
   calls (snd (is_docker_installed docker0 world0)) = [FromEnv, Ping] \<and>
   fst (is_docker_installed docker0
          (world0\<lparr>faults := [Some (Exn DockerException (lit ''Connection refused''))]\<rparr>))
     = Inr False"
proof -
  have c: "client docker0 = None"
    by (simp add: docker0_def init_docker_def)
  have n: "next_fault world0 = None" "next_fault (advance FromEnv world0) = None"
      "calls world0 = []"
    by (simp_all add: next_fault_def advance_def world0_def)
  have f: "next_fault (world0\<lparr>faults := [Some (Exn DockerException (lit ''Connection refused''))]\<rparr>)
           = Some (Exn DockerException (lit ''Connection refused''))"
    by (simp add: next_fault_def)
  have d: "is_DockerException (Exn DockerException (lit ''Connection refused''))"
    by (simp add: is_DockerException_def)
  from is_docker_installed_result [OF c, of world0] n
  have 1: "fst (is_docker_installed docker0 world0) = Inr True"
    and 2: "calls (snd (is_docker_installed docker0 world0)) = [FromEnv, Ping]"
    by simp_all
  from is_docker_installed_result [OF c,
      of "world0\<lparr>faults := [Some (Exn DockerException (lit ''Connection refused''))]\<rparr>"] f d
  have 3: "fst (is_docker_installed docker0
          (world0\<lparr>faults := [Some (Exn DockerException (lit ''Connection refused''))]\<rparr>))
     = Inr False"
    by simp
  from c 1 2 3 show ?thesis by simp
qed

text \<open>
  C8 as stated ("it never raises") fails when the ping ends in an error that is not a
  \<open>DockerException\<close>, such as a transport error after the client was obtained.
\<close>

theorem is_docker_installed_raises:
  "fst (is_docker_installed docker0
     (world0\<lparr>faults := [None, Some (Exn (OtherError (lit ''ConnectionError''))
                                   (lit ''Connection aborted.''))]\<rparr>))
   = Inl (Exn (OtherError (lit ''ConnectionError'')) (lit ''Connection aborted.''))"
  by (simp add: run_defs)

section \<open>The failure policy of \<open>execute\<close>\<close>

text \<open>
  C1, as the code has it. The handler of \<open>execute\<close> covers the \<open>try\<close> block only. An
  error of client acquisition, and an error of the image check or the build, leave
  \<open>execute\<close> as they are. Once both have ended normally, an error \<open>e\<close> of the
  \<open>try\<close> block (ensuring the container, the lookup, the command, the decoding) is
  logged and \<open>str(e)\<close>, encoded, is the result, provided that text can be encoded.
\<close>

theorem execute_failure_policy:
  "(\<forall>e w1. get_docker_client w = (Inl e, w1) \<longrightarrow> execute self cmd w = (Inl e, w1)) \<and>
   (\<forall>u w1 e w2. get_docker_client w = (Inr u, w1) \<and> image_check self w1 = (Inl e, w2) \<longrightarrow>
      execute self cmd w = (Inl e, w2)) \<and>
   (\<forall>u w1 v w2 e w3 bs.
      get_docker_client w = (Inr u, w1) \<and> image_check self w1 = (Inr v, w2) \<and>
      try_block self (get_container_name self) cmd w2 = (Inl e, w3) \<and>
      encode_utf8 (msg e) = Some bs \<longrightarrow>
      execute self cmd w =
        (Inr bs, w3\<lparr>stdout := stdout w3 @ [lit ''Error running container: '' @ msg e]\<rparr>))"
  by (simp add: execute_def seq_def try_except_def Let_def log_def py_print_def lift_def
      str_encode_def)

theorem execute_failure_policy_witness:
  "fst (execute docker0 (lit ''echo hi'')
          (world0\<lparr>faults := [Some (Exn DockerException (lit ''Connection refused''))]\<rparr>))
     = Inl (Exn DockerException (lit ''Connection refused'')) \<and>
   fst (execute docker0 (lit ''echo hi'')
          (world0\<lparr>faults := [None, None, None, None, Some (Exn BuildError (lit ''build failed''))]\<rparr>))
     = Inl (Exn BuildError (lit ''build failed'')) \<and>
   fst (execute docker0 (lit ''echo hi'')
          (world0\<lparr>images := [lit ''pygpt_image''],
                  faults := [None, None, None, None, Some (Exn APIError (lit ''500 Server Error''))]\<rparr>))
     = Inr (map of_nat (lit ''No such container''))"
proof -
  let ?a = "world0\<lparr>faults := [Some (Exn DockerException (lit ''Connection refused''))]\<rparr>"
  let ?b = "world0\<lparr>faults := [None, None, None, None, Some (Exn BuildError (lit ''build failed''))]\<rparr>"
  let ?c = "world0\<lparr>images := [lit ''pygpt_image''],
                  faults := [None, None, None, None, Some (Exn APIError (lit ''500 Server Error''))]\<rparr>"
  have a: "get_docker_client ?a =
      (Inl (Exn DockerException (lit ''Connection refused'')), snd (get_docker_client ?a))"
    by (simp add: get_docker_client_def from_env_def api_def next_fault_def)
  have b1: "get_docker_client ?b = (Inr (), snd (get_docker_client ?b))"
    by (simp add: get_docker_client_def from_env_def api_def next_fault_def ret_def)
  have b2: "image_check docker0 (snd (get_docker_client ?b)) =
      (Inl (Exn BuildError (lit ''build failed'')),
       snd (image_check docker0 (snd (get_docker_client ?b))))"
    by (simp add: run_defs)
  have c1: "get_docker_client ?c = (Inr (), snd (get_docker_client ?c))"
    by (simp add: get_docker_client_def from_env_def api_def next_fault_def ret_def)
  have c2: "image_check docker0 (snd (get_docker_client ?c)) =
      (Inr (), snd (image_check docker0 (snd (get_docker_client ?c))))"
    by (simp add: run_defs)
  have c3: "try_block docker0 (get_container_name docker0) (lit ''echo hi'')
        (snd (image_check docker0 (snd (get_docker_client ?c)))) =
      (Inl no_such_container,
       snd (try_block docker0 (get_container_name docker0) (lit ''echo hi'')
        (snd (image_check docker0 (snd (get_docker_client ?c))))))"
    by (simp add: run_defs)
  have c4: "encode_utf8 (msg no_such_container) = Some (map of_nat (lit ''No such container''))"
    by (simp add: no_such_container_def lit_def encode_cp_def)
  note p = execute_failure_policy [of _ docker0 "lit ''echo hi''"]
  from p [of ?a, THEN conjunct1, rule_format, OF a]
  have 1: "fst (execute docker0 (lit ''echo hi'') ?a)
           = Inl (Exn DockerException (lit ''Connection refused''))"
    by simp
  from p [of ?b, THEN conjunct2, THEN conjunct1, rule_format, OF conjI [OF b1 b2]]
  have 2: "fst (execute docker0 (lit ''echo hi'') ?b) = Inl (Exn BuildError (lit ''build failed''))"
    by simp
  from p [of ?c, THEN conjunct2, THEN conjunct2, rule_format,
      OF conjI [OF c1 conjI [OF c2 conjI [OF c3 c4]]]]
  have 3: "fst (execute docker0 (lit ''echo hi'') ?c) = Inr (map of_nat (lit ''No such container''))"
    by simp
  from 1 2 3 show ?thesis by simp
qed

text \<open>
  C1 as stated fails on a runtime that does not answer: \<open>is_docker_installed\<close> reports
  \<open>False\<close>, and \<open>execute\<close> raises the error of its first call.
\<close>

theorem execute_raises_when_unreachable:
  "fst (is_docker_installed docker0
     (world0\<lparr>faults := replicate 12 (Some (Exn DockerException (lit ''Connection refused'')))\<rparr>))
   = Inr False \<and>
   fst (execute docker0 (lit ''echo hi'')
     (world0\<lparr>faults := replicate 12 (Some (Exn DockerException (lit ''Connection refused'')))\<rparr>))
   = Inl (Exn DockerException (lit ''Connection refused''))"
  by (simp add: run_defs numeral_eq_Suc)

section \<open>Valid output comes back unchanged\<close>

text \<open>
  C7. When client acquisition and the image check end normally and the command's
  captured output \<open>out\<close> decodes as UTF-8, \<open>execute\<close> returns exactly \<open>out\<close>:
  encoding the decoded text gives the same bytes.
\<close>

theorem execute_returns_valid_output:
  assumes "get_docker_client w = (Inr u, w1)" and "image_check self w1 = (Inr v, w2)"
    and "run_in_container self (get_container_name self) cmd w2 = (Inr out, w3)"
    and "decode_utf8 out = Some t"
  shows "execute self cmd w = (Inr out, w3) \<and> str_encode t = Inr out"
  using assms decode_encode [OF assms(4)]
  by (simp add: execute_def try_block_def seq_def try_except_def Let_def lift_def
      str_encode_def bytes_decode_def)

theorem execute_returns_valid_output_witness:
  "execute docker0 (lit ''echo hi'') world0 =
     (Inr [0x68, 0x69, 0x0A], snd (execute docker0 (lit ''echo hi'') world0))"
proof -
  let ?w1 = "snd (get_docker_client world0)"
  let ?w2 = "snd (image_check docker0 ?w1)"
  let ?w3 = "snd (run_in_container docker0 (get_container_name docker0) (lit ''echo hi'') ?w2)"
  have 1: "get_docker_client world0 = (Inr (), ?w1)"
    by (simp add: run_defs)
  have 2: "image_check docker0 ?w1 = (Inr (), ?w2)"
    by (simp add: run_defs)
  have 3: "run_in_container docker0 (get_container_name docker0) (lit ''echo hi'') ?w2
           = (Inr [0x68, 0x69, 0x0A], ?w3)"
    by (simp add: run_defs)
  have 4: "decode_utf8 [0x68, 0x69, 0x0A] = Some (lit ''hi'' @ [10])"
    by (simp add: lit_def)
  from execute_returns_valid_output [OF 1 2 3 4] show ?thesis by simp
qed

section \<open>Errors inside \<open>create_container\<close>\<close>

text \<open>
  An error of the lookup that is not a "not found" is caught and logged, and
  \<open>create_container\<close> returns normally.
\<close>

lemma lookup_error_is_logged:
  assumes "get_docker_client w = (Inr u, w1)" and "containers_get n w1 = (Inl e, w2)"
    and "\<not> is_NotFound e"
  shows "create_container self n w =
           (Inr (), w2\<lparr>stdout := stdout w2 @ [lit ''Error creating container: '' @ msg e]\<rparr>)"
  using assms
  by (simp add: create_container_def seq_def try_except_def Let_def log_def py_print_def)

text \<open>
  C9 at a failing input. No container exists, the lookup raises \<open>NotFound\<close>, and the
  creation inside that handler fails with a server error: the error leaves
  \<open>create_container\<close>, since a handler's own errors are not caught by the clauses beside
  it. The same failure of the same creation call on the path of a stale container is
  caught and the method returns normally.
\<close>

theorem create_container_lets_creation_error_escape:
  "fst (create_container docker0 (lit ''pygpt_container'')
          (world0\<lparr>images := [lit ''pygpt_image''],
                  faults := [None, None, Some (Exn APIError (lit ''500 Server Error''))]\<rparr>))
     = Inl (Exn APIError (lit ''500 Server Error'')) \<and>
   fst (create_container docker0 (lit ''pygpt_container'')
          ((world_with (lit ''exited''))
             \<lparr>faults := [None, None, None, None, Some (Exn APIError (lit ''500 Server Error''))]\<rparr>))
     = Inr ()"
  by (simp add: run_defs)

section \<open>The computer tool excludes the others\<close>

lemma tools_without_computer:
  assumes "get_remote_tools loads types window model preset is_expert_call = Inr ts"
    and "ComputerTool c f \<in> set ts"
  shows "ts = [ComputerTool (LocalComputer window) on_safety_check]"
proof (cases "is_gpt model \<and>
    truthy (item (enabled_flags window model preset is_expert_call) (lit ''computer_use''))")
  case True
  with assms show ?thesis
    by (simp add: get_remote_tools_def Let_def split: if_splits)
next
  case False
  have fs: "file_search_tools window = Inr xs \<Longrightarrow> ComputerTool c f \<notin> set xs" for xs
    by (auto simp: file_search_tools_def Let_def split: if_splits pyval.splits)
  have mc: "mcp_tools loads window = Inr xs \<Longrightarrow> ComputerTool c f \<notin> set xs" for xs
    by (auto simp: mcp_tools_def Let_def split: if_splits pyval.splits sum.splits)
  from False assms(1) have "ComputerTool c f \<notin> set ts"
    by (auto simp: get_remote_tools_def Let_def split: if_splits sum.splits dest: fs mc)
  with assms(2) show ?thesis by simp
qed

text \<open>
  C10. For a GPT model whose \<open>computer_use\<close> flag is set and whose identifier is not in
  the disable list, \<open>get_remote_tools\<close> returns the list of one \<open>ComputerTool\<close>; and
  whatever the flags, a returned list that holds a \<open>ComputerTool\<close> holds nothing else.
\<close>

theorem computer_tool_is_alone:
  "(is_gpt model \<and>
    truthy (item (enabled_flags window model preset is_expert_call) (lit ''computer_use'')) \<and>
    model_id model \<notin> set (disable_computer_use types) \<longrightarrow>
      get_remote_tools loads types window model preset is_expert_call
        = Inr [ComputerTool (LocalComputer window) on_safety_check]) \<and>
   (\<forall>ts c f. get_remote_tools loads types window model preset is_expert_call = Inr ts \<and>
      ComputerTool c f \<in> set ts \<longrightarrow> ts = [ComputerTool (LocalComputer window) on_safety_check])"
proof (intro conjI impI allI)
  assume "is_gpt model \<and>
    truthy (item (enabled_flags window model preset is_expert_call) (lit ''computer_use'')) \<and>
    model_id model \<notin> set (disable_computer_use types)"
  then show "get_remote_tools loads types window model preset is_expert_call
        = Inr [ComputerTool (LocalComputer window) on_safety_check]"
    by (simp add: get_remote_tools_def Let_def)
next
  fix ts c f
  assume "get_remote_tools loads types window model preset is_expert_call = Inr ts \<and>
      ComputerTool c f \<in> set ts"
  then show "ts = [ComputerTool (LocalComputer window) on_safety_check]"
    using tools_without_computer by blast
qed

theorem computer_tool_is_alone_witness:
  "get_remote_tools loads0 types0 window0
      \<lparr>model_id = lit ''computer-use-preview'', is_gpt = True\<rparr> None False
     = Inr [ComputerTool (LocalComputer window0) on_safety_check] \<and>
   get_remote_tools loads0 types0 window0 \<lparr>model_id = lit ''gpt-4o'', is_gpt = True\<rparr>
      (Some \<lparr>remote_tools = Some (lit ''web_search, computer_use'')\<rparr>) True
     = Inr [ComputerTool (LocalComputer window0) on_safety_check]"
proof -
  let ?m = "\<lparr>model_id = lit ''computer-use-preview'', is_gpt = True\<rparr>"
  let ?g = "\<lparr>model_id = lit ''gpt-4o'', is_gpt = True\<rparr>"
  let ?p = "Some \<lparr>remote_tools = Some (lit ''web_search, computer_use'')\<rparr>"
  have 1: "is_gpt ?m \<and>
      truthy (item (enabled_flags window0 ?m None False) (lit ''computer_use'')) \<and>
      model_id ?m \<notin> set (disable_computer_use types0)"
    by (simp add: enabled_flags_def item_def startswith_def types0_def lit_def)
  have 2: "is_gpt ?g \<and>
      truthy (item (enabled_flags window0 ?g ?p True) (lit ''computer_use'')) \<and>
      model_id ?g \<notin> set (disable_computer_use types0)"
    by (simp add: enabled_flags_def item_def types0_def lit_def stripped_items_def strip_def
        is_space_def enabled_default_def)
  note t = computer_tool_is_alone [of _ window0 _ _ types0 loads0, THEN conjunct1, rule_format]
  from t [OF 1] t [OF 2] show ?thesis by simp
qed

section \<open>An absent image is built once, before the command\<close>

text \<open>
  C2. On a runtime that answers: if the configured image is absent (and the Dockerfile
  text can be encoded), the calls of \<open>execute\<close> are the image lookup, one build with the
  Dockerfile as the only member of the context, and then calls among which there is no
  further build and there is the \<open>exec_run\<close> of the command; if the image is present,
  \<open>execute\<close> makes no build call.
\<close>

theorem absent_image_is_built_once:
  assumes q: "quiet w" and u: "ids_unique w"
  shows "(get_image_name self \<notin> set (images w) \<and> encode_utf8 (get_dockerfile self) = Some data \<longrightarrow>
          (\<exists>rest k. calls (snd (execute self cmd w)) =
                       calls w @ [FromEnv, FromEnv, ImagesGet (get_image_name self), FromEnv,
                                  ImagesBuild [(lit ''Dockerfile'', length data, data)] True True
                                    (get_image_name self)] @ rest \<and>
                     (\<forall>x \<in> set rest. \<not> is_build x) \<and>
                     ContainerExecRun k cmd True True \<in> set rest)) \<and>
         (get_image_name self \<in> set (images w) \<longrightarrow>
          (\<exists>new. calls (snd (execute self cmd w)) = calls w @ new \<and>
                     (\<forall>x \<in> set new. \<not> is_build x)))"
proof (intro conjI impI)
  assume a: "get_image_name self \<notin> set (images w) \<and> encode_utf8 (get_dockerfile self) = Some data"
  then have d: "get_image_name self \<in> set (images w)
      \<or> encode_utf8 (get_dockerfile self) = Some data" by simp
  let ?w2 = "snd (image_check self (snd (get_docker_client w)))"
  note p = execute_prelude_quiet [OF q u d]
  from run_in_container_quiet [OF p(4) p(5) p(6), of "get_container_name self" cmd]
  obtain rest k where
    r: "calls (snd (run_in_container self (get_container_name self) cmd ?w2)) = calls ?w2 @ rest"
       "\<forall>x \<in> set rest. \<not> is_build x" "ContainerExecRun k cmd True True \<in> set rest"
    by blast
  have "calls (snd (execute self cmd w)) = calls ?w2 @ rest"
    using execute_state [OF p(1) p(2), of cmd] r(1) by simp
  also have "calls ?w2 = calls w @ [FromEnv, FromEnv, ImagesGet (get_image_name self), FromEnv,
                                  ImagesBuild [(lit ''Dockerfile'', length data, data)] True True
                                    (get_image_name self)]"
    using p(3) a by simp
  finally show "\<exists>rest k. calls (snd (execute self cmd w)) =
                       calls w @ [FromEnv, FromEnv, ImagesGet (get_image_name self), FromEnv,
                                  ImagesBuild [(lit ''Dockerfile'', length data, data)] True True
                                    (get_image_name self)] @ rest \<and>
                     (\<forall>x \<in> set rest. \<not> is_build x) \<and>
                     ContainerExecRun k cmd True True \<in> set rest"
    using r(2,3) by auto
next
  assume a: "get_image_name self \<in> set (images w)"
  let ?w2 = "snd (image_check self (snd (get_docker_client w)))"
  note p = execute_prelude_quiet [where data = "[]", OF q u disjI1 [OF a]]
  from run_in_container_quiet [OF p(4) p(5) p(6), of "get_container_name self" cmd]
  obtain rest k where
    r: "calls (snd (run_in_container self (get_container_name self) cmd ?w2)) = calls ?w2 @ rest"
       "\<forall>x \<in> set rest. \<not> is_build x"
    by blast
  have "calls (snd (execute self cmd w)) = calls ?w2 @ rest"
    using execute_state [OF p(1) p(2), of cmd] r(1) by simp
  also have "calls ?w2 = calls w @ [FromEnv, FromEnv, ImagesGet (get_image_name self)]"
    using p(3) a by simp
  finally have "calls (snd (execute self cmd w))
      = calls w @ ([FromEnv, FromEnv, ImagesGet (get_image_name self)] @ rest)"
    by simp
  moreover have "\<forall>x \<in> set ([FromEnv, FromEnv, ImagesGet (get_image_name self)] @ rest). \<not> is_build x"
    using r(2) by simp
  ultimately show "\<exists>new. calls (snd (execute self cmd w)) = calls w @ new \<and>
                     (\<forall>x \<in> set new. \<not> is_build x)"
    by blast
qed

theorem absent_image_is_built_once_witness:
  "quiet world0 \<and> ids_unique world0 \<and> get_image_name docker0 \<notin> set (images world0) \<and>
   (\<exists>rest k. calls (snd (execute docker0 (lit ''echo hi'') world0)) =
        [FromEnv, FromEnv, ImagesGet (lit ''pygpt_image''), FromEnv,
         ImagesBuild [(lit ''Dockerfile'', 16, map of_nat (lit ''FROM python:3.11''))] True True
           (lit ''pygpt_image'')] @ rest \<and>
      (\<forall>x \<in> set rest. \<not> is_build x) \<and>
      ContainerExecRun k (lit ''echo hi'') True True \<in> set rest) \<and>
   (\<exists>new. calls (snd (execute docker0 (lit ''echo hi'') (world_with (lit ''running'')))) = new \<and>
      (\<forall>x \<in> set new. \<not> is_build x))"
proof -
  note f = world0_facts
  note g = world_with_facts [of "lit ''running''"]
  have l: "length (map of_nat (lit ''FROM python:3.11'') :: bytes) = 16"
    by (simp add: lit_def)
  from absent_image_is_built_once [where self = docker0 and cmd = "lit ''echo hi''"
        and data = "map of_nat (lit ''FROM python:3.11'')", OF f(1) f(2),
      THEN conjunct1, rule_format, OF conjI [OF f(3) f(4)]]
  have 1: "\<exists>rest k. calls (snd (execute docker0 (lit ''echo hi'') world0)) =
        [FromEnv, FromEnv, ImagesGet (lit ''pygpt_image''), FromEnv,
         ImagesBuild [(lit ''Dockerfile'', 16, map of_nat (lit ''FROM python:3.11''))] True True
           (lit ''pygpt_image'')] @ rest \<and>
      (\<forall>x \<in> set rest. \<not> is_build x) \<and>
      ContainerExecRun k (lit ''echo hi'') True True \<in> set rest"
    by (simp only: f(5) docker0_facts l append_Nil)
  from absent_image_is_built_once [where self = docker0 and cmd = "lit ''echo hi''"
        and data = "[]", OF g(1) g(2),
      THEN conjunct2, rule_format, OF g(4)]
  have 2: "\<exists>new. calls (snd (execute docker0 (lit ''echo hi'') (world_with (lit ''running'')))) = new \<and>
      (\<forall>x \<in> set new. \<not> is_build x)"
    by (simp only: g(5) append_Nil)
  from f(1,2,3) 1 2 show ?thesis by blast
qed

section \<open>A running container is reused\<close>

text \<open>
  C3. On a runtime that answers, if the container of the name exists and is running,
  \<open>create_container\<close> only looks it up and reloads it: it makes no call that removes,
  creates or starts a container, and the containers stay as they were. An \<open>execute\<close>
  that finds the image and the managed container running therefore runs the command in
  that same container and leaves the containers unchanged.
\<close>

theorem running_container_is_reused:
  assumes q: "quiet w" and u: "ids_unique w" and c: "by_name n w = Some c"
    and r: "cstatus c = lit ''running''"
  shows "fst (create_container self n w) = Inr () \<and>
         calls (snd (create_container self n w)) =
           calls w @ [FromEnv, ContainersGet n, ContainerReload (cid c)] \<and>
         containers (snd (create_container self n w)) = containers w \<and>
         (n = get_container_name self \<and> get_image_name self \<in> set (images w) \<longrightarrow>
            calls (snd (execute self cmd w)) =
              calls w @ [FromEnv, FromEnv, ImagesGet (get_image_name self), FromEnv,
                         ContainersGet n, ContainerReload (cid c), ContainersGet n,
                         ContainerExecRun (cid c) cmd True True] \<and>
            containers (snd (execute self cmd w)) = containers w)"
proof (intro conjI impI)
  note e = create_container_running [OF q u c r, of self]
  from e show "fst (create_container self n w) = Inr ()" by simp
  from e show "calls (snd (create_container self n w)) =
           calls w @ [FromEnv, ContainersGet n, ContainerReload (cid c)]" by simp
  from e show "containers (snd (create_container self n w)) = containers w" by simp
next
  assume a: "n = get_container_name self \<and> get_image_name self \<in> set (images w)"
  let ?w1 = "snd (get_docker_client w)"
  let ?w2 = "snd (image_check self ?w1)"
  note g = get_docker_client_quiet [OF q]
  from g q have q1: "quiet ?w1" by (simp add: quiet_advance)
  from a g have i1: "get_image_name self \<in> set (images ?w1)" by simp
  note ic = image_check_quiet [where data = "[]", OF q1 disjI1 [OF i1]]
  from ic g have same: "containers ?w2 = containers w" "next_cid ?w2 = next_cid w" by simp_all
  from ic have q2: "quiet ?w2" by simp
  from u have u2: "ids_unique ?w2" by (simp only: same_containers(2) [OF same])
  from c have c2: "by_name n ?w2 = Some c" by (simp only: same_containers(1) [OF same])
  note e = create_container_running [OF q2 u2 c2 r, of self]
  from e c2 have "by_name n (snd (create_container self n ?w2)) = Some c"
    by (simp add: by_name_def)
  note ru = run_after_ensure [OF _ _ this, of cmd]
  note st = execute_state [of w _ self _ cmd]
  from g ic have ok: "fst (get_docker_client w) = Inr ()" "fst (image_check self ?w1) = Inr ()"
    by simp_all
  have cw2: "calls ?w2 = calls w @ [FromEnv, FromEnv, ImagesGet (get_image_name self)]"
    using ic g i1 by simp
  have ce: "calls (snd (create_container self n ?w2)) =
      calls ?w2 @ [FromEnv, ContainersGet n, ContainerReload (cid c)]"
    using e by simp
  have cr: "calls (snd (run_in_container self n cmd ?w2)) =
      calls (snd (create_container self n ?w2))
        @ [ContainersGet n, ContainerExecRun (cid c) cmd True True]"
    using ru e by simp
  have cx: "calls (snd (execute self cmd w)) = calls (snd (run_in_container self n cmd ?w2))"
    using st [OF ok] a by simp
  show "calls (snd (execute self cmd w)) =
          calls w @ [FromEnv, FromEnv, ImagesGet (get_image_name self), FromEnv,
                     ContainersGet n, ContainerReload (cid c), ContainersGet n,
                     ContainerExecRun (cid c) cmd True True]"
    by (simp only: cx cr ce cw2 append_assoc append.simps)
  have "containers (snd (execute self cmd w)) = containers (snd (run_in_container self n cmd ?w2))"
    using st [OF ok] a by simp
  also have "\<dots> = containers (snd (create_container self n ?w2))"
    using ru e by simp
  also have "\<dots> = containers ?w2" using e by simp
  also have "\<dots> = containers w" by (rule same(1))
  finally show "containers (snd (execute self cmd w)) = containers w" .
qed

theorem running_container_is_reused_witness:
  "quiet (world_with (lit ''running'')) \<and> ids_unique (world_with (lit ''running'')) \<and>
   by_name (lit ''pygpt_container'') (world_with (lit ''running'')) = Some (sandbox (lit ''running'')) \<and>
   fst (create_container docker0 (lit ''pygpt_container'') (world_with (lit ''running''))) = Inr () \<and>
   calls (snd (create_container docker0 (lit ''pygpt_container'') (world_with (lit ''running''))))
     = [FromEnv, ContainersGet (lit ''pygpt_container''), ContainerReload 7] \<and>
   calls (snd (execute docker0 (lit ''echo hi'') (world_with (lit ''running''))))
     = [FromEnv, FromEnv, ImagesGet (lit ''pygpt_image''), FromEnv,
        ContainersGet (lit ''pygpt_container''), ContainerReload 7,
        ContainersGet (lit ''pygpt_container''),
        ContainerExecRun 7 (lit ''echo hi'') True True] \<and>
   containers (snd (execute docker0 (lit ''echo hi'') (world_with (lit ''running''))))
     = [sandbox (lit ''running'')]"
proof -
  note f = world_with_facts [of "lit ''running''"]
  note t = running_container_is_reused [where self = docker0 and cmd = "lit ''echo hi''",
      OF f(1) f(2) f(3) f(8)]
  from t show ?thesis
    by (simp add: f docker0_facts)
qed

section \<open>A stale container is replaced\<close>

text \<open>
  C4. On a runtime that answers, if the managed container exists and its status is not
  \<open>running\<close>, \<open>execute\<close> (after the image check) looks the container up, reloads it,
  removes it, creates a new one from the image with the data directory bound to
  \<open>/data\<close> in mode \<open>rw\<close>, a TTY, open stdin and the command \<open>tail -f /dev/null\<close>, starts
  it, and only then runs the command, in the new container. Afterwards the new container
  is running and the old one is gone.
\<close>

theorem stale_container_is_recreated:
  assumes q: "quiet w" and u: "ids_unique w"
    and c: "by_name (get_container_name self) w = Some c"
    and r: "cstatus c \<noteq> lit ''running''"
    and d: "get_image_name self \<in> set (images w) \<or> encode_utf8 (get_dockerfile self) = Some data"
  shows "calls (snd (execute self cmd w)) =
           calls w @ FromEnv #
             (if get_image_name self \<in> set (images w)
              then [FromEnv, ImagesGet (get_image_name self)]
              else [FromEnv, ImagesGet (get_image_name self), FromEnv,
                    ImagesBuild [(lit ''Dockerfile'', length data, data)] True True
                      (get_image_name self)])
             @ [FromEnv, ContainersGet (get_container_name self), ContainerReload (cid c),
                ContainerRemove (cid c),
                ContainersCreate
                  \<lparr>image = get_image_name self, name = get_container_name self,
                   volumes = [(get_local_data_dir self, lit ''/data'', lit ''rw'')],
                   tty = True, stdin_open = True, command = lit ''tail -f /dev/null''\<rparr>,
                ContainerStart (next_cid w),
                ContainersGet (get_container_name self),
                ContainerExecRun (next_cid w) cmd True True] \<and>
         containers (snd (execute self cmd w)) =
           \<lparr>cid = next_cid w, cname = get_container_name self, cimage = get_image_name self,
            cstatus = lit ''running'',
            cvolumes = [(get_local_data_dir self, lit ''/data'', lit ''rw'')],
            ctty = True, cstdin_open = True, ccommand = lit ''tail -f /dev/null''\<rparr>
           # filter (\<lambda>x. cid x \<noteq> cid c) (containers w)"
proof -
  let ?n = "get_container_name self"
  let ?w2 = "snd (image_check self (snd (get_docker_client w)))"
  let ?new = "\<lparr>cid = next_cid w, cname = get_container_name self, cimage = get_image_name self,
            cstatus = lit ''running'',
            cvolumes = [(get_local_data_dir self, lit ''/data'', lit ''rw'')],
            ctty = True, cstdin_open = True, ccommand = lit ''tail -f /dev/null''\<rparr>"
  note p = execute_prelude_quiet [OF q u d]
  from c have c2: "by_name ?n ?w2 = Some c" by (simp only: p(7))
  note e = create_container_stale [OF p(4) p(5) c2 r p(6)]
  have ce: "calls (snd (create_container self ?n ?w2)) =
      calls ?w2 @ [FromEnv, ContainersGet ?n, ContainerReload (cid c), ContainerRemove (cid c),
                ContainersCreate
                  \<lparr>image = get_image_name self, name = ?n,
                   volumes = [(get_local_data_dir self, lit ''/data'', lit ''rw'')],
                   tty = True, stdin_open = True, command = lit ''tail -f /dev/null''\<rparr>,
                ContainerStart (next_cid w)]"
    using e by (simp add: container_args_def p(8))
  have co: "containers (snd (create_container self ?n ?w2)) =
      ?new # filter (\<lambda>x. cid x \<noteq> cid c) (containers w)"
    using e by (simp add: container_args_def new_container_def p(8) p(9))
  then have bn: "by_name ?n (snd (create_container self ?n ?w2)) = Some ?new"
    by (simp add: by_name_def)
  note ru = run_after_ensure [OF _ _ bn, of cmd]
  have cr: "calls (snd (run_in_container self ?n cmd ?w2)) =
      calls (snd (create_container self ?n ?w2))
        @ [ContainersGet ?n, ContainerExecRun (next_cid w) cmd True True]"
    using ru e by simp
  have kr: "containers (snd (run_in_container self ?n cmd ?w2)) =
      containers (snd (create_container self ?n ?w2))"
    using ru e by simp
  note st = execute_state [OF p(1) p(2), of cmd]
  have cx: "calls (snd (execute self cmd w)) = calls (snd (run_in_container self ?n cmd ?w2))"
    using st by simp
  have kx: "containers (snd (execute self cmd w)) =
      containers (snd (run_in_container self ?n cmd ?w2))"
    using st by simp
  show ?thesis
    by (simp only: cx cr ce p(3) kx kr co append_assoc append.simps simp_thms)
qed

theorem stale_container_is_recreated_witness:
  "quiet (world_with (lit ''exited'')) \<and> ids_unique (world_with (lit ''exited'')) \<and>
   by_name (get_container_name docker0) (world_with (lit ''exited'')) = Some (sandbox (lit ''exited'')) \<and>
   cstatus (sandbox (lit ''exited'')) \<noteq> lit ''running'' \<and>
   calls (snd (execute docker0 (lit ''echo hi'') (world_with (lit ''exited'')))) =
     [FromEnv, FromEnv, ImagesGet (lit ''pygpt_image''), FromEnv,
      ContainersGet (lit ''pygpt_container''), ContainerReload 7, ContainerRemove 7,
      ContainersCreate
        \<lparr>image = lit ''pygpt_image'', name = lit ''pygpt_container'',
         volumes = [(lit ''/home/user/data'', lit ''/data'', lit ''rw'')],
         tty = True, stdin_open = True, command = lit ''tail -f /dev/null''\<rparr>,
      ContainerStart 8, ContainersGet (lit ''pygpt_container''),
      ContainerExecRun 8 (lit ''echo hi'') True True] \<and>
   containers (snd (execute docker0 (lit ''echo hi'') (world_with (lit ''exited'')))) =
     [(sandbox (lit ''running''))\<lparr>cid := 8\<rparr>]"
proof -
  note f = world_with_facts [of "lit ''exited''"]
  have c: "by_name (get_container_name docker0) (world_with (lit ''exited''))
      = Some (sandbox (lit ''exited''))"
    by (simp only: docker0_facts f(3))
  have r: "cstatus (sandbox (lit ''exited'')) \<noteq> lit ''running''"
    by (simp add: sandbox_def lit_def)
  note t = stale_container_is_recreated [where data = "[]" and cmd = "lit ''echo hi''",
      OF f(1) f(2) c r disjI1 [OF f(4)]]
  from t have 1: "calls (snd (execute docker0 (lit ''echo hi'') (world_with (lit ''exited'')))) =
     [FromEnv, FromEnv, ImagesGet (lit ''pygpt_image''), FromEnv,
      ContainersGet (lit ''pygpt_container''), ContainerReload 7, ContainerRemove 7,
      ContainersCreate
        \<lparr>image = lit ''pygpt_image'', name = lit ''pygpt_container'',
         volumes = [(lit ''/home/user/data'', lit ''/data'', lit ''rw'')],
         tty = True, stdin_open = True, command = lit ''tail -f /dev/null''\<rparr>,
      ContainerStart 8, ContainersGet (lit ''pygpt_container''),
      ContainerExecRun 8 (lit ''echo hi'') True True]"
    by (simp add: f docker0_facts)
  from t have 2: "containers (snd (execute docker0 (lit ''echo hi'') (world_with (lit ''exited'')))) =
     [(sandbox (lit ''running''))\<lparr>cid := 8\<rparr>]"
    by (simp add: f docker0_facts sandbox_def)
  from f(1,2) c r 1 2 show ?thesis by simp
qed

end
